theory Spec2Isabelle
  imports Main "HOL-Library.Word"
begin

text \<open>
  A model of \<^verbatim>\<open>InterviewSession\<close>, the React component that runs a candidate's
  interview: the screen-chunk encoder and uploader, the playback decoder, the countdown
  timer, the tab-switch monitor and the handlers for recording, submitting and ending.

  \<^item> React state (\<^verbatim>\<open>useState\<close>) and refs (\<^verbatim>\<open>useRef\<close>) are the fields of one record; a
    handler takes the record and returns it updated.
  \<^item> Whatever the browser, the backend or the clock supplies (HTTP replies, socket events,
    media streams, \<^verbatim>\<open>Date.now()\<close>) is an argument of the handler that consumes it.
  \<^item> An \<^verbatim>\<open>async\<close> handler runs as one step, with two exceptions: the chunk handler is
    split at its first \<^verbatim>\<open>await\<close>, so that uploads may overlap, and
    \<^verbatim>\<open>stopScreenRecording\<close> is split at each of its waits wherever its caller does not
    await it, so that other handlers may run while the recorder is still recording.
  \<^item> Exceptions are values: a \<^verbatim>\<open>try\<close> body returns a sum, the \<^verbatim>\<open>catch\<close> is the case
    on it.
\<close>

section \<open>Strings as the session controller uses them\<close>

text \<open>
  The strings the controller cleans are the results of \<^verbatim>\<open>FileReader.readAsDataURL\<close> and
  the binary strings returned by \<^verbatim>\<open>atob\<close>; both consist of code units below 256, so a
  string is a list of 8-bit characters here.
\<close>

definition is_space :: "char \<Rightarrow> bool" where
  \<comment> \<open>the class \<^verbatim>\<open>\s\<close> (which already holds \<^verbatim>\<open>\n \r \t\<close>) on code units below 256\<close>
  "is_space c = (of_char c \<in> {9, 10, 11, 12, 13, 32, 160 :: nat})"

definition trim :: "string \<Rightarrow> string" where
  "trim s = rev (dropWhile is_space (rev (dropWhile is_space s)))"

fun split_on :: "char \<Rightarrow> string \<Rightarrow> string list" where
  "split_on sep [] = [[]]"
| "split_on sep (x # xs) =
     (if x = sep then [] # split_on sep xs
      else (case split_on sep xs of
              [] \<Rightarrow> [[x]]
            | w # ws \<Rightarrow> (x # w) # ws))"

definition is_base64_char :: "char \<Rightarrow> bool" where
  \<comment> \<open>the characters kept by \<^verbatim>\<open>/[^A-Za-z0-9+/=]/g\<close>\<close>
  "is_base64_char c =
     (let n = (of_char c :: nat) in
        (65 \<le> n \<and> n \<le> 90) \<or> (97 \<le> n \<and> n \<le> 122) \<or> (48 \<le> n \<and> n \<le> 57)
        \<or> c = CHR ''+'' \<or> c = CHR ''/'' \<or> c = CHR ''='')"

section \<open>The screen-chunk encoder (\<^verbatim>\<open>reader.onload\<close> in \<^verbatim>\<open>ondataavailable\<close>)\<close>

datatype upload_error =
    TypeError
  | EmptyBase64            \<comment> \<open>'Empty base64 string after cleaning'\<close>
  | ReadFailed             \<comment> \<open>'Failed to read blob as base64'\<close>
  | SocketNotConnected     \<comment> \<open>'Socket not connected, cannot send video chunk'\<close>
  | AckTimeout             \<comment> \<open>'Timeout waiting for video_chunk_saved confirmation'\<close>
  | SaveFailed string      \<comment> \<open>the server's error text, or 'Failed to save video chunk'\<close>

definition strip_prefix :: "string \<Rightarrow> upload_error + string" where
  \<comment> \<open>\<^verbatim>\<open>result.includes(',') ? result.split(',')[1] : result\<close>\<close>
  "strip_prefix result =
     (if CHR '','' \<in> set result then
        (case split_on CHR '','' result of
           _ # seg # _ \<Rightarrow> Inr seg
         | _ \<Rightarrow> Inl TypeError)
      else Inr result)"

definition pad_base64 :: "string \<Rightarrow> string" where
  "pad_base64 base64 =
     (let padding = length base64 mod 4 in
        if padding > 0 then base64 @ replicate (4 - padding) CHR ''='' else base64)"

definition onload :: "string \<Rightarrow> upload_error + string" where
  "onload result =
     (case strip_prefix result of
        Inl e \<Rightarrow> Inl e
      | Inr base64 \<Rightarrow>
          (let base64 = filter (\<lambda>c. \<not> is_space c) (trim base64);
               base64 = filter is_base64_char base64
           in if length base64 = 0 then Inl EmptyBase64
              else Inr (pad_base64 base64)))"

section \<open>Synthesized audio: base64 text and the playback decoder\<close>

type_synonym byte = "8 word"

definition base64_alphabet :: string where
  "base64_alphabet = ''ABCDEFGHIJKLMNOPQRSTUVWXYZabcdefghijklmnopqrstuvwxyz0123456789+/''"

definition sextet_char :: "nat \<Rightarrow> char" where
  "sextet_char n = base64_alphabet ! n"

definition char_sextet :: "char \<Rightarrow> nat option" where
  "char_sextet c = map_of (zip base64_alphabet [0..<64]) c"

fun sextets_of :: "byte list \<Rightarrow> nat list" where
  "sextets_of (a # b # c # rest) =
     (let n = unat a * 65536 + unat b * 256 + unat c
      in [n div 262144, n div 4096 mod 64, n div 64 mod 64, n mod 64]) @ sextets_of rest"
| "sextets_of [a, b] =
     (let n = unat a * 65536 + unat b * 256
      in [n div 262144, n div 4096 mod 64, n div 64 mod 64])"
| "sextets_of [a] =
     (let n = unat a * 65536 in [n div 262144, n div 4096 mod 64])"
| "sextets_of [] = []"

text \<open>
  Modelled from the spec: the encoder of the synthesized audio is backend code, not part
  of the client sources; the spec says the payload (\<^verbatim>\<open>ttsAudioBase64\<close>) is the base64 text
  of the audio bytes. This is standard base64 (RFC 4648, with padding): each group of
  three bytes gives four characters, a rest of one or two bytes gives two or three
  characters and \<^verbatim>\<open>=\<close> up to four.
\<close>

definition base64_encode :: "byte list \<Rightarrow> string" where
  "base64_encode bs =
     map sextet_char (sextets_of bs) @ replicate ((3 - length bs mod 3) mod 3) CHR ''=''"

text \<open>
  Modelled from the spec: \<^verbatim>\<open>atob\<close>, which \<^verbatim>\<open>playTTSAudio\<close> calls, is the browser's decoder,
  not code of the client sources. It is the forgiving base64 decoding of the HTML
  standard: ASCII whitespace is dropped, one or two trailing \<^verbatim>\<open>=\<close> are dropped when the
  length is a multiple of 4, a length of 1 modulo 4 or a character outside the alphabet
  fails (here \<open>None\<close>; the call throws and \<^verbatim>\<open>playTTSAudio\<close> catches), and the result is
  the binary string whose character codes are the decoded bytes.
\<close>

definition is_ascii_whitespace :: "char \<Rightarrow> bool" where
  "is_ascii_whitespace c = (of_char c \<in> {9, 10, 12, 13, 32 :: nat})"

definition strip_padding :: "string \<Rightarrow> string" where
  "strip_padding d =
     (if length d mod 4 = 0 \<and> d \<noteq> [] \<and> last d = CHR ''='' then
        (let d1 = butlast d in if d1 \<noteq> [] \<and> last d1 = CHR ''='' then butlast d1 else d1)
      else d)"

fun bytes_of :: "nat list \<Rightarrow> byte list" where
  "bytes_of (a # b # c # d # rest) =
     (let n = a * 262144 + b * 4096 + c * 64 + d
      in [of_nat (n div 65536), of_nat (n div 256), of_nat n]) @ bytes_of rest"
| "bytes_of [a, b, c] =
     (let n = a * 262144 + b * 4096 + c * 64
      in [of_nat (n div 65536), of_nat (n div 256)])"
| "bytes_of [a, b] =
     (let n = a * 262144 + b * 4096 in [of_nat (n div 65536)])"
| "bytes_of _ = []"

definition atob :: "string \<Rightarrow> string option" where
  "atob input =
     (let d = strip_padding (filter (\<lambda>c. \<not> is_ascii_whitespace c) input) in
        if length d mod 4 = 1 then None
        else (case those (map char_sextet d) of
                None \<Rightarrow> None
              | Some ss \<Rightarrow> Some (map (\<lambda>b. char_of (unat b)) (bytes_of ss))))"

text \<open>
  The loop of \<^verbatim>\<open>playTTSAudio\<close>: \<^verbatim>\<open>view[i] = audioData.charCodeAt(i)\<close> for every index of the
  decoded string, on a \<^verbatim>\<open>Uint8Array\<close> of that length (a store keeps the value modulo 256).
\<close>

function fill_view :: "string \<Rightarrow> nat \<Rightarrow> byte list \<Rightarrow> byte list" where
  "fill_view audioData i view =
     (if i < length audioData
      then fill_view audioData (i + 1) (view[i := of_nat (of_char (audioData ! i))])
      else view)"
  by pat_completeness auto
termination
  by (relation "measure (\<lambda>(audioData, i, view). length audioData - i)") auto

declare fill_view.simps [simp del]

definition decode_tts :: "string \<Rightarrow> byte list option" where
  "decode_tts base64Audio =
     (case atob base64Audio of
        None \<Rightarrow> None
      | Some audioData \<Rightarrow> Some (fill_view audioData 0 (replicate (length audioData) 0)))"

section \<open>The interview session controller\<close>

text \<open>
  A media stream is the list of its video tracks; the audio tracks play no part in what
  the controller decides. User-visible error texts are the constructors of \<open>message\<close>
  (\<open>NoMessage\<close> is the empty text, \<open>ErrorText\<close> carries the message of a caught
  exception). The fields \<open>calls\<close>, \<open>sentUnder\<close> and \<open>caught\<close> are not variables of the
  component: \<open>calls\<close> logs the backend requests and socket emissions made (and the capture
  requests of \<^verbatim>\<open>startRecording\<close> and of the display stream), \<open>sentUnder\<close> the
  \<^verbatim>\<open>chunkIndex\<close> read for each chunk of \<open>screenChunksRef\<close>, and \<open>caught\<close> the errors the
  chunk handler caught (it prints them to the console). \<open>timerIntervalRef\<close> is \<open>None\<close>
  for \<^verbatim>\<open>null\<close>, \<open>Some True\<close> for a running interval and \<open>Some False\<close> for the id of a
  cleared one. \<open>recorderGen\<close> counts the \<^verbatim>\<open>MediaRecorder\<close> objects created, so that it names
  the one \<open>screenRecorderRef\<close> holds; \<open>flushesPending\<close> and \<open>stopsPending\<close> are the runs of
  \<^verbatim>\<open>stopScreenRecording\<close> that nobody awaits and that are suspended, the former in the
  500 ms wait after \<^verbatim>\<open>requestData\<close> (each with the recorder it captured), the latter in the
  wait for \<^verbatim>\<open>onstop\<close>. The periodic screen-activity check, which only appends alerts of two
  kinds of its own, and the camera preview are left out.
\<close>

datatype recorder_state = Inactive | Recording | Paused

record track =
  track_id :: string
  displaySurface :: "string option"
  ended :: bool

type_synonym stream = "track list"

record blob =
  blob_size :: nat
  blob_type :: string

datatype details = Details string | TabSwitched nat | ScreenPaused nat

record alert =
  alert_type :: string
  timestamp :: nat
  alert_details :: details

datatype message =
    NoMessage
  | ScreenSharingStoppedMsg
  | CannotRecordMsg
  | CannotSubmitMsg
  | RecordAnswerFirstMsg
  | SocketNotConnectedMsg
  | MicrophoneMsg
  | TabSwitchWarning nat
  | TerminatedMsg
  | FullScreenRequiredMsg
  | NoVideoTrackMsg
  | TrackEndedMsg
  | ErrorText string

datatype call =
    GetCurrentQuestion string
  | PostSubmitAnswer string string string
  | PostEndInterview string
  | GetResponse string
  | PostCheatingAlert string string details nat
  | EmitStartInterview string
  | EmitEndInterview
  | EmitSaveVideoChunk string string string
  | GetUserMediaAudio
  | GetDisplayMedia

record session =
  responseId :: "string option"
  currentQuestion :: string
  questionNumber :: nat
  totalQuestions :: nat
  transcript :: string
  partialTranscript :: string
  isRecording :: bool
  loading :: bool
  error :: message
  interviewComplete :: bool
  finalAnalysis :: "string option"
  timeRemaining :: "int option"
  socketConnected :: bool
  screenSharingStopped :: bool
  mediaRecorderRef :: "recorder_state option"
  audioRef :: "byte list option"
  socketRef :: bool
  timerIntervalRef :: "bool option"
  screenRecorderRef :: "recorder_state option"
  screenChunksRef :: "blob list"
  screenStreamRef :: "stream option"
  screenChunkIndexRef :: nat
  tabSwitchCountRef :: nat
  cheatingAlertsRef :: "alert list"
  lastScreenActivityRef :: nat
  sessionInitializedRef :: bool
  recorderGen :: nat
  flushesPending :: "nat list"
  stopsPending :: nat
  calls :: "call list"
  sentUnder :: "nat list"
  caught :: "(nat \<times> upload_error) list"

definition init_session :: "nat \<Rightarrow> session" where
  "init_session now =
     \<lparr>responseId = None, currentQuestion = [], questionNumber = 0, totalQuestions = 0,
      transcript = [], partialTranscript = [], isRecording = False, loading = False,
      error = NoMessage, interviewComplete = False, finalAnalysis = None,
      timeRemaining = None, socketConnected = False, screenSharingStopped = False,
      mediaRecorderRef = None, audioRef = None, socketRef = False,
      timerIntervalRef = None, screenRecorderRef = None, screenChunksRef = [],
      screenStreamRef = None, screenChunkIndexRef = 0, tabSwitchCountRef = 0,
      cheatingAlertsRef = [], lastScreenActivityRef = now, sessionInitializedRef = False,
      recorderGen = 0, flushesPending = [], stopsPending = 0,
      calls = [], sentUnder = [], caught = []\<rparr>"

definition has_id :: "string option \<Rightarrow> bool" where
  "has_id rid = (case rid of None \<Rightarrow> False | Some r \<Rightarrow> r \<noteq> [])"

definition log_call :: "call \<Rightarrow> session \<Rightarrow> session" where
  "log_call c s = s\<lparr>calls := calls s @ [c]\<rparr>"

subsection \<open>Integrity alerts\<close>

definition recordCheatingAlert ::
  "string option \<Rightarrow> string \<Rightarrow> details \<Rightarrow> nat \<Rightarrow> session \<Rightarrow> session" where
  "recordCheatingAlert rid ty det now s =
     (let s1 = s\<lparr>cheatingAlertsRef := cheatingAlertsRef s
                  @ [\<lparr>alert_type = ty, timestamp = now, alert_details = det\<rparr>]\<rparr>
      in case rid of
           None \<Rightarrow> s1
         | Some r \<Rightarrow>
             if r = [] then s1
             else log_call (PostCheatingAlert r ty det now) s1)"

subsection \<open>Question fetch and playback\<close>

datatype question_reply =
    QuestionThrows string
  | QuestionNotOk
  | QuestionComplete
  | Question string nat nat "string option"

definition playTTSAudio :: "string \<Rightarrow> session \<Rightarrow> session" where
  "playTTSAudio base64Audio s =
     (case decode_tts base64Audio of
        None \<Rightarrow> s
      | Some audio \<Rightarrow> s\<lparr>audioRef := Some audio\<rparr>)"

definition fetchCurrentQuestion :: "question_reply \<Rightarrow> string \<Rightarrow> session \<Rightarrow> session" where
  "fetchCurrentQuestion reply resId s =
     (let s1 = log_call (GetCurrentQuestion resId) s in
      case reply of
        QuestionThrows m \<Rightarrow> s1\<lparr>error := ErrorText m\<rparr>
      | QuestionNotOk \<Rightarrow> s1\<lparr>error := ErrorText ''Failed to fetch question''\<rparr>
      | QuestionComplete \<Rightarrow> s1\<lparr>interviewComplete := True\<rparr>
      | Question text n tq tts \<Rightarrow>
          (let s2 = s1\<lparr>currentQuestion := text, questionNumber := n, totalQuestions := tq\<rparr>
           in case tts of
                None \<Rightarrow> s2
              | Some b64 \<Rightarrow> if b64 = [] then s2 else playTTSAudio b64 s2))"

subsection \<open>Screen recording\<close>

datatype display_reply = DisplayThrows string | DisplayStream stream

definition recorder_active :: "session \<Rightarrow> bool" where
  "recorder_active s =
     (case screenRecorderRef s of None \<Rightarrow> False | Some st \<Rightarrow> st \<noteq> Inactive)"

definition begin_recording :: "stream \<Rightarrow> session \<Rightarrow> message option \<times> session" where
  "begin_recording finalStream s =
     (let s1 = s\<lparr>screenStreamRef := Some finalStream\<rparr> in
      case finalStream of
        [] \<Rightarrow> (Some NoVideoTrackMsg, s1)
      | videoTrack # _ \<Rightarrow>
          if ended videoTrack then (Some TrackEndedMsg, s1)
          else (None, s1\<lparr>screenRecorderRef := Some Recording, screenChunksRef := [],
                         sentUnder := [], screenChunkIndexRef := 0,
                         recorderGen := recorderGen s1 + 1\<rparr>))"

definition request_display :: "display_reply \<Rightarrow> session \<Rightarrow> message option \<times> session" where
  "request_display reply s =
     (if recorder_active s then (None, s)
      else
        (let s1 = log_call GetDisplayMedia s in
         case reply of
           DisplayThrows m \<Rightarrow> (Some (ErrorText m), s1)
         | DisplayStream newStream \<Rightarrow>
             (case newStream of
                [] \<Rightarrow> (Some (ErrorText ''TypeError''), s1)
              | videoTrack # _ \<Rightarrow>
                  if displaySurface videoTrack \<noteq> None
                     \<and> displaySurface videoTrack \<noteq> Some ''monitor''
                  then (Some FullScreenRequiredMsg, s1)
                  else begin_recording newStream s1)))"

definition startScreenRecording ::
  "display_reply \<Rightarrow> stream option \<Rightarrow> session \<Rightarrow> message option \<times> session" where
  "startScreenRecording reply useExistingStream s =
     (if recorder_active s then (None, s)
      else
        (case useExistingStream of
           Some (existingTrack # rest) \<Rightarrow>
             if ended existingTrack then request_display reply s
             else
               (case screenStreamRef s of
                  Some (current # _) \<Rightarrow>
                    if track_id current = track_id existingTrack then (None, s)
                    else begin_recording (existingTrack # rest) s
                | _ \<Rightarrow> begin_recording (existingTrack # rest) s)
         | _ \<Rightarrow> request_display reply s))"

text \<open>
  \<^verbatim>\<open>stopScreenRecording\<close> has two waits. With a recorder that is recording it calls
  \<^verbatim>\<open>requestData\<close> and waits 500 ms; then it calls \<^verbatim>\<open>recorder.stop()\<close>, which makes the
  recorder inactive at once, and waits for \<^verbatim>\<open>onstop\<close>, which itself waits 5 s; only then
  does it stop the tracks of \<open>screenStreamRef\<close> and clear it. A paused recorder is stopped
  without the first wait; with no recorder, or an inactive one, the stream is released at
  once.

  \<open>stopScreenRecording\<close> is the whole of it, for the caller that awaits it
  (\<^verbatim>\<open>endInterviewManually\<close>). \<open>stopScreenRecording_detached\<close> is the part up to the first
  wait, for the callers that do not (\<^verbatim>\<open>videoTrack.onended\<close> and the effect on completion);
  \<open>stop_flushed\<close> and \<open>stop_released\<close> are what such a run does when its first and its
  second wait are over. \<^verbatim>\<open>recorder.stop()\<close> is called on the recorder the run captured at
  its start: if that one is inactive by then, the call throws, the \<^verbatim>\<open>catch\<close> of
  \<^verbatim>\<open>stopScreenRecording\<close> takes it and the run ends without releasing the stream.
\<close>

definition stopScreenRecording :: "session \<Rightarrow> session" where
  "stopScreenRecording s =
     (let s1 = (if recorder_active s then s\<lparr>screenRecorderRef := Some Inactive\<rparr> else s)
      in s1\<lparr>screenStreamRef := None\<rparr>)"

definition stopScreenRecording_detached :: "session \<Rightarrow> session" where
  "stopScreenRecording_detached s =
     (case screenRecorderRef s of
        Some Recording \<Rightarrow> s\<lparr>flushesPending := flushesPending s @ [recorderGen s]\<rparr>
      | Some Paused \<Rightarrow>
          s\<lparr>screenRecorderRef := Some Inactive, stopsPending := stopsPending s + 1\<rparr>
      | _ \<Rightarrow> s\<lparr>screenStreamRef := None\<rparr>)"

definition stop_flushed :: "nat \<Rightarrow> session \<Rightarrow> session" where
  "stop_flushed recorder s =
     (if recorderGen s = recorder \<and> recorder_active s
      then s\<lparr>screenRecorderRef := Some Inactive, stopsPending := stopsPending s + 1\<rparr>
      else s)"

definition stop_released :: "session \<Rightarrow> session" where
  "stop_released s = s\<lparr>screenStreamRef := None\<rparr>"

definition resume_flush :: "session \<Rightarrow> session" where
  "resume_flush s =
     (case flushesPending s of
        [] \<Rightarrow> s
      | recorder # rest \<Rightarrow> stop_flushed recorder (s\<lparr>flushesPending := rest\<rparr>))"

definition resume_release :: "session \<Rightarrow> session" where
  "resume_release s =
     (if stopsPending s = 0 then s
      else stop_released (s\<lparr>stopsPending := stopsPending s - 1\<rparr>))"

text \<open>
  \<^verbatim>\<open>videoTrack.onended\<close>. Its first argument is the \<^verbatim>\<open>responseId\<close> that the closure of
  \<^verbatim>\<open>recordCheatingAlert\<close> holds, which is the one of the render that started the recording.
\<close>

definition onended :: "string option \<Rightarrow> nat \<Rightarrow> session \<Rightarrow> session" where
  "onended rid now s =
     (let s1 = recordCheatingAlert rid ''screen_sharing_stopped''
                 (Details ''User stopped screen sharing'') now s;
          s2 = s1\<lparr>screenSharingStopped := True\<rparr>;
          s3 = stopScreenRecording_detached s2
      in s3\<lparr>error := ScreenSharingStoppedMsg\<rparr>)"

definition restartScreenSharing :: "display_reply \<Rightarrow> session \<Rightarrow> session" where
  "restartScreenSharing reply s =
     (if \<not> has_id (responseId s) then s
      else
        (case startScreenRecording reply None (s\<lparr>error := NoMessage\<rparr>) of
           (None, s1) \<Rightarrow> s1\<lparr>screenSharingStopped := False\<rparr>
         | (Some m, s1) \<Rightarrow> s1\<lparr>error := m\<rparr>))"

subsection \<open>Chunk upload\<close>

text \<open>
  What one run of \<^verbatim>\<open>screenRecorder.ondataavailable\<close> meets: the result of the
  \<^verbatim>\<open>FileReader\<close> (\<open>None\<close> when it reports an error), whether the socket is there and
  connected \<open>t\<close> milliseconds after the handler first looks (the wait polls every 100 ms,
  taken as exact), and the \<^verbatim>\<open>video_chunk_saved\<close> and \<^verbatim>\<open>error\<close> events that arrive after
  the emit, each with its arrival time in milliseconds. The two listeners are registered
  with \<^verbatim>\<open>once\<close>: a \<^verbatim>\<open>video_chunk_saved\<close> that is not ok uses up the listener without
  settling the promise.
\<close>

datatype socket_event = VideoChunkSaved bool | SocketError "string option"

record upload_env =
  reader_result :: "string option"
  connected_at :: "nat \<Rightarrow> bool"
  ack_events :: "(nat \<times> socket_event) list"

definition maxWait :: nat where
  "maxWait = 5000"

definition ackTimeout :: nat where
  "ackTimeout = 10000"

function wait_for_socket :: "(nat \<Rightarrow> bool) \<Rightarrow> nat \<Rightarrow> nat" where
  "wait_for_socket conn t =
     (if \<not> conn t \<and> t < maxWait then wait_for_socket conn (t + 100) else t)"
  by pat_completeness auto
termination
  by (relation "measure (\<lambda>(conn, t). maxWait - t)") auto

declare wait_for_socket.simps [simp del]

fun await_save :: "bool \<Rightarrow> (nat \<times> socket_event) list \<Rightarrow> upload_error + unit" where
  "await_save armed [] = Inl AckTimeout"
| "await_save armed ((t, ev) # rest) =
     (if t \<ge> ackTimeout then Inl AckTimeout
      else
        (case ev of
           VideoChunkSaved ok \<Rightarrow>
             if armed then (if ok then Inr () else await_save False rest)
             else await_save armed rest
         | SocketError msg \<Rightarrow>
             Inl (SaveFailed (case msg of
                                None \<Rightarrow> ''Failed to save video chunk''
                              | Some m \<Rightarrow> if m = [] then ''Failed to save video chunk'' else m))))"

definition read_chunk :: "upload_env \<Rightarrow> upload_error + string" where
  "read_chunk env =
     (case reader_result env of
        None \<Rightarrow> Inl ReadFailed
      | Some result \<Rightarrow> onload result)"

definition send_chunk :: "upload_env \<Rightarrow> string \<Rightarrow> call list \<times> (upload_error + unit)" where
  "send_chunk env resId =
     (case read_chunk env of
        Inl e \<Rightarrow> ([], Inl e)
      | Inr base64Chunk \<Rightarrow>
          (let t = (if \<not> connected_at env 0 then wait_for_socket (connected_at env) 0 else 0)
           in if connected_at env t
              then ([EmitSaveVideoChunk resId base64Chunk ''mp4''],
                    await_save True (ack_events env))
              else ([], Inl SocketNotConnected)))"

definition chunk_begin :: "blob option \<Rightarrow> session \<Rightarrow> session \<times> nat option" where
  "chunk_begin data s =
     (case data of
        None \<Rightarrow> (s, None)
      | Some b \<Rightarrow>
          if blob_size b > 0
          then (s\<lparr>screenChunksRef := screenChunksRef s @ [b],
                  sentUnder := sentUnder s @ [screenChunkIndexRef s]\<rparr>,
                Some (screenChunkIndexRef s))
          else (s, None))"

definition chunk_settle :: "upload_env \<Rightarrow> string \<Rightarrow> nat \<Rightarrow> session \<Rightarrow> session" where
  "chunk_settle env resId chunkIndex s =
     (case send_chunk env resId of
        (emitted, r) \<Rightarrow>
          (let s1 = s\<lparr>calls := calls s @ emitted\<rparr> in
           case r of
             Inr _ \<Rightarrow> s1\<lparr>screenChunkIndexRef := screenChunkIndexRef s1 + 1\<rparr>
           | Inl err \<Rightarrow> s1\<lparr>caught := caught s1 @ [(chunkIndex, err)]\<rparr>))"

definition ondataavailable :: "upload_env \<Rightarrow> string \<Rightarrow> blob option \<Rightarrow> session \<Rightarrow> session" where
  "ondataavailable env resId data s =
     (case chunk_begin data s of
        (s1, None) \<Rightarrow> s1
      | (s1, Some chunkIndex) \<Rightarrow> chunk_settle env resId chunkIndex s1)"

subsection \<open>Answer recording and submission\<close>

definition startRecording :: "bool \<Rightarrow> session \<Rightarrow> session" where
  "startRecording mic_ok s =
     (if \<not> socketRef s \<or> \<not> socketConnected s then s\<lparr>error := SocketNotConnectedMsg\<rparr>
      else
        (let s1 = log_call GetUserMediaAudio s in
         if mic_ok
         then s1\<lparr>mediaRecorderRef := Some Recording, isRecording := True,
                 transcript := [], partialTranscript := []\<rparr>
         else s1\<lparr>error := MicrophoneMsg\<rparr>))"

definition stopRecording :: "session \<Rightarrow> session" where
  "stopRecording s =
     (case mediaRecorderRef s of
        None \<Rightarrow> s
      | Some st \<Rightarrow>
          if st \<noteq> Inactive then s\<lparr>mediaRecorderRef := Some Inactive, isRecording := False\<rparr>
          else s)"

definition toggleRecording :: "bool \<Rightarrow> session \<Rightarrow> session" where
  "toggleRecording mic_ok s =
     (if screenSharingStopped s then s\<lparr>error := CannotRecordMsg\<rparr>
      else if isRecording s then stopRecording s
      else startRecording mic_ok s)"

datatype submit_reply =
    SubmitThrows string
  | SubmitNotOk
  | SubmitOk bool "string option" "nat option" "nat option"

record submit_env =
  submit_reply :: submit_reply
  next_question :: question_reply

definition submit_complete ::
  "string option \<Rightarrow> nat option \<Rightarrow> nat option \<Rightarrow> session \<Rightarrow> session" where
  "submit_complete final qn tq s =
     (let a = s\<lparr>interviewComplete := True\<rparr>;
          b = (case final of
                 None \<Rightarrow> a
               | Some f \<Rightarrow> if f = [] then a else a\<lparr>finalAnalysis := Some f\<rparr>);
          c = (case qn of None \<Rightarrow> b | Some n \<Rightarrow> b\<lparr>questionNumber := n\<rparr>)
      in case tq of None \<Rightarrow> c | Some n \<Rightarrow> c\<lparr>totalQuestions := n\<rparr>)"

definition submit_next :: "question_reply \<Rightarrow> string \<Rightarrow> session \<Rightarrow> session" where
  "submit_next reply rid s =
     (let b = fetchCurrentQuestion reply rid (s\<lparr>transcript := []\<rparr>)
      in if socketRef b \<and> socketConnected b then log_call (EmitStartInterview rid) b else b)"

definition submit_response :: "submit_env \<Rightarrow> string \<Rightarrow> session \<Rightarrow> session" where
  "submit_response env rid s =
     (case submit_reply env of
        SubmitThrows m \<Rightarrow> s\<lparr>error := ErrorText m\<rparr>
      | SubmitNotOk \<Rightarrow> s\<lparr>error := ErrorText ''Failed to submit answer''\<rparr>
      | SubmitOk complete final qn tq \<Rightarrow>
          if complete then submit_complete final qn tq s
          else submit_next (next_question env) rid s)"

definition submitAnswer :: "submit_env \<Rightarrow> session \<Rightarrow> session" where
  "submitAnswer env s =
     (if \<not> has_id (responseId s) \<or> trim (transcript s) = []
         \<or> transcript s = ''Recording...''
      then s\<lparr>error := RecordAnswerFirstMsg\<rparr>
      else if screenSharingStopped s then s\<lparr>error := CannotSubmitMsg\<rparr>
      else
        (case responseId s of
           None \<Rightarrow> s
         | Some rid \<Rightarrow>
             (let s1 = s\<lparr>loading := True\<rparr>;
                  s2 = (if isRecording s1 then stopRecording s1 else s1);
                  s3 = log_call (PostSubmitAnswer rid (currentQuestion s2) (transcript s2)) s2
              in (submit_response env rid s3)\<lparr>loading := False\<rparr>)))"

subsection \<open>Ending the interview\<close>

datatype end_reply = EndThrows string | EndNotOk | EndOk "nat option" "nat option"

datatype detail_reply = DetailThrows | DetailNotOk | DetailOk "string option"

record end_env =
  end_reply :: end_reply
  detail_reply :: detail_reply

definition end_response :: "end_env \<Rightarrow> string \<Rightarrow> session \<Rightarrow> session" where
  "end_response env rid s =
     (case end_reply env of
        EndThrows m \<Rightarrow> s\<lparr>error := ErrorText m\<rparr>
      | EndNotOk \<Rightarrow> s\<lparr>error := ErrorText ''Failed to end interview''\<rparr>
      | EndOk answered tq \<Rightarrow>
          (let a = s\<lparr>interviewComplete := True\<rparr>;
               b = (case answered of None \<Rightarrow> a | Some n \<Rightarrow> a\<lparr>questionNumber := n\<rparr>);
               c = (case tq of None \<Rightarrow> b | Some n \<Rightarrow> b\<lparr>totalQuestions := n\<rparr>);
               d = log_call (GetResponse rid) c
           in case detail_reply env of
                DetailOk summary \<Rightarrow> d\<lparr>finalAnalysis := summary\<rparr>
              | _ \<Rightarrow> d))"

definition endInterviewManually :: "end_env \<Rightarrow> session \<Rightarrow> session" where
  "endInterviewManually env s =
     (case responseId s of
        None \<Rightarrow> s
      | Some rid \<Rightarrow>
          if rid = [] \<or> interviewComplete s then s
          else
            (let s1 = s\<lparr>timerIntervalRef := None\<rparr>;
                 s2 = s1\<lparr>loading := True\<rparr>;
                 s3 = (if screenRecorderRef s2 \<noteq> None then stopScreenRecording s2 else s2);
                 s4 = (if socketRef s3 then log_call EmitEndInterview s3 else s3);
                 s5 = log_call (PostEndInterview rid) s4
             in (end_response env rid s5)\<lparr>loading := False\<rparr>))"

subsection \<open>Tab-switch monitoring\<close>

definition handleVisibilityChange :: "end_env \<Rightarrow> bool \<Rightarrow> nat \<Rightarrow> session \<Rightarrow> session" where
  "handleVisibilityChange env hidden now s =
     (if hidden then
        (let s1 = s\<lparr>tabSwitchCountRef := tabSwitchCountRef s + 1\<rparr>;
             s2 = recordCheatingAlert (responseId s1) ''tab_switch''
                    (TabSwitched (tabSwitchCountRef s1)) now s1;
             s3 = s2\<lparr>error := TabSwitchWarning (tabSwitchCountRef s2)\<rparr>
         in if tabSwitchCountRef s3 \<ge> 3
            then endInterviewManually env (s3\<lparr>error := TerminatedMsg\<rparr>)
            else s3)
      else s\<lparr>lastScreenActivityRef := now\<rparr>)"

definition monitoring :: "session \<Rightarrow> bool" where
  \<comment> \<open>the listeners are attached only while \<^verbatim>\<open>responseId && !interviewComplete\<close>\<close>
  "monitoring s = (has_id (responseId s) \<and> \<not> interviewComplete s)"

subsection \<open>The countdown timer\<close>

text \<open>
  The timer is a \<^verbatim>\<open>useEffect\<close> on \<^verbatim>\<open>[timeRemaining, interviewComplete, responseId]\<close>: after
  a render in which one of the three has changed, React runs the cleanup of the previous
  run and then the effect again. \<open>settle_timer\<close> does that until the three are stable; a
  second round happens only when the effect itself ended the interview, and then changes
  nothing but the interval. \<open>completion_effect\<close> is the effect that stops the screen
  recording once the interview is complete.
\<close>

definition interval_callback :: "session \<Rightarrow> session" where
  "interval_callback s =
     s\<lparr>timeRemaining :=
         Some (case timeRemaining s of
                 None \<Rightarrow> 0
               | Some prev \<Rightarrow> if prev \<le> 1 then 0 else prev - 1)\<rparr>"

definition timer_cleanup :: "session \<Rightarrow> session" where
  "timer_cleanup s =
     (case timerIntervalRef s of
        None \<Rightarrow> s
      | Some _ \<Rightarrow> s\<lparr>timerIntervalRef := Some False\<rparr>)"

definition timer_effect :: "end_env \<Rightarrow> session \<Rightarrow> session" where
  "timer_effect env s =
     (if timeRemaining s = None \<or> (case timeRemaining s of None \<Rightarrow> False | Some t \<Rightarrow> t \<le> 0)
         \<or> interviewComplete s
      then
        (let s1 = s\<lparr>timerIntervalRef := None\<rparr> in
         if timeRemaining s1 = Some 0 \<and> \<not> interviewComplete s1 \<and> has_id (responseId s1)
         then endInterviewManually env s1
         else s1)
      else s\<lparr>timerIntervalRef := Some True\<rparr>)"

definition timer_deps :: "session \<Rightarrow> int option \<times> bool \<times> string option" where
  "timer_deps s = (timeRemaining s, interviewComplete s, responseId s)"

definition settle_timer :: "end_env \<Rightarrow> session \<Rightarrow> session \<Rightarrow> session" where
  "settle_timer env old s =
     (if timer_deps s = timer_deps old then s
      else
        (let s1 = timer_effect env (timer_cleanup s) in
         if timer_deps s1 = timer_deps s then s1
         else timer_effect env (timer_cleanup s1)))"

definition completion_effect :: "session \<Rightarrow> session \<Rightarrow> session" where
  "completion_effect old s =
     (if (interviewComplete s, responseId s) = (interviewComplete old, responseId old) then s
      else if interviewComplete s \<and> has_id (responseId s) \<and> screenRecorderRef s \<noteq> None
      then stopScreenRecording_detached s
      else s)"

subsection \<open>Starting the session\<close>

fun starts_with :: "string \<Rightarrow> string \<Rightarrow> bool" where
  "starts_with [] s = True"
| "starts_with (p # ps) [] = False"
| "starts_with (p # ps) (c # cs) = (p = c \<and> starts_with ps cs)"

fun str_includes :: "string \<Rightarrow> string \<Rightarrow> bool" where
  "str_includes [] needle = starts_with needle []"
| "str_includes (c # cs) needle = (starts_with needle (c # cs) \<or> str_includes cs needle)"

definition validation_issue :: "message \<Rightarrow> bool" where
  \<comment> \<open>\<^verbatim>\<open>errorMessage.includes('Full screen sharing') || errorMessage.includes('enable audio')\<close>\<close>
  "validation_issue m =
     (case m of
        FullScreenRequiredMsg \<Rightarrow> True
      | ErrorText t \<Rightarrow> str_includes t ''Full screen sharing'' \<or> str_includes t ''enable audio''
      | _ \<Rightarrow> False)"

datatype start_reply =
    StartThrows string
  | StartNotOk "string option"
  | StartOk "string option" "int option"

record start_env =
  start_reply :: start_reply
  first_question :: question_reply
  screenPermissionGranted :: bool
  existingScreenStream :: "stream option"
  display_reply :: display_reply

definition start_screen :: "start_env \<Rightarrow> session \<Rightarrow> session" where
  "start_screen env s =
     (if screenPermissionGranted env \<and> \<not> recorder_active s then
        (case startScreenRecording (display_reply env) (existingScreenStream env) s of
           (None, e) \<Rightarrow> e
         | (Some m, e) \<Rightarrow> if validation_issue m then e else e\<lparr>error := m\<rparr>)
      else s)"

definition start_response :: "start_env \<Rightarrow> session \<Rightarrow> session" where
  "start_response env s =
     (case start_reply env of
        StartThrows m \<Rightarrow> s\<lparr>error := ErrorText m\<rparr>
      | StartNotOk detail \<Rightarrow>
          s\<lparr>error := ErrorText
                (case detail of
                   None \<Rightarrow> ''Failed to start interview''
                 | Some d \<Rightarrow> if d = [] then ''Failed to start interview'' else d)\<rparr>
      | StartOk response_id duration_minutes \<Rightarrow>
          (let a = s\<lparr>sessionInitializedRef := True, responseId := response_id\<rparr>;
               b = (case duration_minutes of
                      None \<Rightarrow> a
                    | Some d \<Rightarrow>
                        if d \<noteq> 0 \<and> d > 0 then a\<lparr>timeRemaining := Some (d * 60)\<rparr> else a);
               c = b\<lparr>socketRef := True\<rparr>
           in case response_id of
                None \<Rightarrow> c
              | Some rid \<Rightarrow>
                  if rid = [] then c
                  else start_screen env (fetchCurrentQuestion (first_question env) rid c)))"

definition startSession :: "start_env \<Rightarrow> session \<Rightarrow> session" where
  "startSession env s =
     (if sessionInitializedRef s then s
      else (start_response env (s\<lparr>loading := True\<rparr>))\<lparr>loading := False\<rparr>)"

subsection \<open>Live transcript\<close>

definition append_transcript :: "string \<Rightarrow> session \<Rightarrow> session" where
  "append_transcript text s =
     s\<lparr>transcript := (if transcript s \<noteq> [] then transcript s @ '' '' else []) @ text,
       partialTranscript := []\<rparr>"

definition partial_transcript :: "string \<Rightarrow> bool \<Rightarrow> session \<Rightarrow> session" where
  "partial_transcript text isFinal s =
     (if isFinal then append_transcript text s else s\<lparr>partialTranscript := text\<rparr>)"

subsection \<open>Events of a session\<close>

text \<open>
  One event is one callback of the component: a handler runs (\<open>handle\<close>), then the effects
  (\<open>step\<close>). \<open>DataAvailable\<close> is the chunk handler up to its first \<^verbatim>\<open>await\<close>,
  \<open>UploadSettled\<close> the rest of a pending chunk handler. \<open>StopFlushed\<close> and \<open>StopReleased\<close>
  resume the oldest run of \<^verbatim>\<open>stopScreenRecording\<close> that is suspended in its first and in
  its second wait. The end-interview replies that the
  timer effect may need are the first argument of \<open>step\<close>.
\<close>

datatype event =
    StartSession start_env
  | Tick
  | VisibilityChange end_env bool nat
  | WindowBlur nat
  | WindowFocus nat
  | TrackEnded "string option" nat
  | ToggleRecording bool
  | SubmitAnswer submit_env
  | EndInterview end_env
  | RestartScreenSharing display_reply
  | DataAvailable "blob option"
  | UploadSettled upload_env string nat
  | StopFlushed
  | StopReleased
  | SocketConnect
  | SocketDisconnect
  | PartialTranscript string bool
  | TranscriptResult string

fun handle :: "event \<Rightarrow> session \<Rightarrow> session" where
  "handle (StartSession env) s = startSession env s"
| "handle Tick s =
     (if timerIntervalRef s = Some True then interval_callback s else s)"
| "handle (VisibilityChange env hidden now) s =
     (if monitoring s then handleVisibilityChange env hidden now s else s)"
| "handle (WindowBlur now) s =
     (if monitoring s
      then recordCheatingAlert (responseId s) ''window_blur'' (Details ''Window lost focus'') now s
      else s)"
| "handle (WindowFocus now) s =
     (if monitoring s then s\<lparr>lastScreenActivityRef := now\<rparr> else s)"
| "handle (TrackEnded rid now) s = onended rid now s"
| "handle (ToggleRecording mic_ok) s = toggleRecording mic_ok s"
| "handle (SubmitAnswer env) s = submitAnswer env s"
| "handle (EndInterview env) s = endInterviewManually env s"
| "handle (RestartScreenSharing reply) s = restartScreenSharing reply s"
| "handle (DataAvailable data) s = fst (chunk_begin data s)"
| "handle (UploadSettled env resId chunkIndex) s = chunk_settle env resId chunkIndex s"
| "handle StopFlushed s = resume_flush s"
| "handle StopReleased s = resume_release s"
| "handle SocketConnect s = s\<lparr>socketConnected := True\<rparr>"
| "handle SocketDisconnect s = s\<lparr>socketConnected := False\<rparr>"
| "handle (PartialTranscript text isFinal) s = partial_transcript text isFinal s"
| "handle (TranscriptResult text) s = append_transcript text s"

definition step :: "end_env \<Rightarrow> event \<Rightarrow> session \<Rightarrow> session" where
  "step tenv ev s = completion_effect s (settle_timer tenv s (handle ev s))"

fun run :: "end_env \<Rightarrow> event list \<Rightarrow> session \<Rightarrow> session" where
  "run tenv [] s = s"
| "run tenv (ev # evs) s = run tenv evs (step tenv ev s)"

definition end_calls :: "session \<Rightarrow> nat" where
  "end_calls s = length (filter (\<lambda>c. case c of PostEndInterview _ \<Rightarrow> True | _ \<Rightarrow> False) (calls s))"



subsection \<open>A sample session\<close>

text \<open>
  Concrete replies and chunks, on which the properties below are exercised.
\<close>

definition sample_track :: track where
  "sample_track = \<lparr>track_id = ''screen-1'', displaySurface = Some ''monitor'', ended = False\<rparr>"

definition sample_start :: "int \<Rightarrow> start_env" where
  "sample_start minutes =
     \<lparr>start_reply = StartOk (Some ''resp-1'') (Some minutes),
      first_question = Question ''Tell us about your last project.'' 1 5 None,
      screenPermissionGranted = True,
      existingScreenStream = Some [sample_track],
      display_reply = DisplayThrows ''NotAllowedError''\<rparr>"

definition sample_end :: end_env where
  "sample_end = \<lparr>end_reply = EndOk (Some 1) (Some 5), detail_reply = DetailNotOk\<rparr>"

definition sample_upload :: "(nat \<times> socket_event) list \<Rightarrow> upload_env" where
  "sample_upload replies =
     \<lparr>reader_result = Some ''data:video/mp4;base64,AAAAIGZ0eXBpc29t'',
      connected_at = (\<lambda>t. True),
      ack_events = replies\<rparr>"

definition sample_chunk :: "nat \<Rightarrow> blob" where
  "sample_chunk n = \<lparr>blob_size = n, blob_type = ''video/mp4''\<rparr>"

section \<open>Properties\<close>

subsection \<open>The screen-chunk encoder\<close>

lemma length_pad_base64: "length (pad_base64 s) mod 4 = 0"
proof -
  let ?p = "length s mod 4"
  show ?thesis
  proof (cases "?p > 0")
    case True
    have "?p < 4" by simp
    then have "(length s + (4 - ?p)) mod 4 = 0"
      using True by presburger
    with True show ?thesis by (simp add: pad_base64_def Let_def)
  next
    case False
    then show ?thesis by (simp add: pad_base64_def Let_def)
  qed
qed

lemma set_pad_base64: "set (pad_base64 s) \<subseteq> set s \<union> {CHR ''=''}"
  by (auto simp: pad_base64_def Let_def)

lemma pad_base64_nonempty: "s \<noteq> [] \<Longrightarrow> pad_base64 s \<noteq> []"
  by (simp add: pad_base64_def Let_def)

lemma base64_char_not_space: "is_base64_char c \<Longrightarrow> \<not> is_space c"
  by (auto simp: is_base64_char_def is_space_def Let_def)

text \<open>
  C8. Whenever the screen-chunk encoder hands a string on for emission, that string
  holds only characters of the base64 alphabet (so no whitespace or control character
  is left), is not empty, and has a length that is a multiple of 4.
\<close>

theorem onload_output_clean:
  assumes "onload result = Inr base64"
  shows "(\<forall>c \<in> set base64. is_base64_char c \<and> \<not> is_space c)
         \<and> base64 \<noteq> [] \<and> length base64 mod 4 = 0"
proof -
  from assms obtain seg where seg: "strip_prefix result = Inr seg"
    by (auto simp: onload_def split: sum.splits)
  define cleaned where
    "cleaned = filter is_base64_char (filter (\<lambda>c. \<not> is_space c) (trim seg))"
  from assms seg have ne: "cleaned \<noteq> []" and out: "base64 = pad_base64 cleaned"
    by (auto simp: onload_def cleaned_def Let_def split: if_splits)
  have "\<forall>c \<in> set cleaned. is_base64_char c"
    by (simp add: cleaned_def)
  moreover have "is_base64_char CHR ''=''"
    by (simp add: is_base64_char_def)
  ultimately have "\<forall>c \<in> set base64. is_base64_char c"
    using set_pad_base64 [of cleaned] out by auto
  then show ?thesis
    using base64_char_not_space ne out
    by (auto simp: length_pad_base64 pad_base64_nonempty)
qed

theorem onload_output_clean_witness:
  "onload ''data:video/mp4;base64,AAAA IGZ0eXA'' = Inr ''AAAAIGZ0eXA=''
   \<and> list_all (\<lambda>c. is_base64_char c \<and> \<not> is_space c) ''AAAAIGZ0eXA=''
   \<and> ''AAAAIGZ0eXA='' \<noteq> [] \<and> length ''AAAAIGZ0eXA='' mod 4 = 0"
proof -
  have run: "onload ''data:video/mp4;base64,AAAA IGZ0eXA'' = Inr ''AAAAIGZ0eXA=''"
    by (simp add: onload_def strip_prefix_def trim_def is_space_def is_base64_char_def
        pad_base64_def Let_def)
  from onload_output_clean [OF run] run show ?thesis
    unfolding list_all_iff by blast
qed

text \<open>
  The prefix is cut at the first comma and the segment up to the second comma is kept.
  For a data URL whose media type carries a codecs list with a comma, that segment is the
  tail of the media type and not the payload; the output is still a clean base64 string.
\<close>

lemma onload_codecs_comma:
  "onload ''data:video/mp4;codecs=avc1,mp4a;base64,AAAAIGZ0eXA='' = Inr ''mp4abase64==''"
  by (simp add: onload_def strip_prefix_def trim_def is_space_def is_base64_char_def
      pad_base64_def Let_def numeral_2_eq_2)

subsection \<open>Playback: the base64 alphabet\<close>

lemma alphabet_distinct: "distinct base64_alphabet"
  by (simp add: base64_alphabet_def)

lemma alphabet_length: "length base64_alphabet = 64"
  by (simp add: base64_alphabet_def)

lemma char_sextet_sextet_char: "n < 64 \<Longrightarrow> char_sextet (sextet_char n) = Some n"
  unfolding char_sextet_def sextet_char_def
  using map_of_zip_nth [of base64_alphabet "[0..<64]" n] alphabet_distinct alphabet_length
  by simp

lemma sextet_char_in_alphabet: "n < 64 \<Longrightarrow> sextet_char n \<in> set base64_alphabet"
  by (simp add: sextet_char_def alphabet_length)

lemma pad_not_in_alphabet: "CHR ''='' \<notin> set base64_alphabet"
  by (simp add: base64_alphabet_def)

lemma whitespace_not_in_alphabet: "is_ascii_whitespace c \<Longrightarrow> c \<notin> set base64_alphabet"
  by (auto simp: base64_alphabet_def is_ascii_whitespace_def)

lemma those_char_sextet:
  "\<forall>x \<in> set ss. x < 64 \<Longrightarrow> those (map char_sextet (map sextet_char ss)) = Some ss"
  by (induction ss) (simp_all add: char_sextet_sextet_char)

subsection \<open>Three bytes and four sextets\<close>

lemma unat_byte_lt: "unat (a :: byte) < 256"
  using unsigned_less [of a, where 'a = nat] by simp

lemma regroup:
  fixes n :: nat
  shows "n div 262144 * 262144 + n div 4096 mod 64 * 4096 + n div 64 mod 64 * 64 + n mod 64 = n"
proof -
  define q1 where "q1 = n div 64"
  define q2 where "q2 = q1 div 64"
  define q3 where "q3 = q2 div 64"
  have d2: "n div 4096 = q2"
    unfolding q2_def q1_def by (simp add: div_mult2_eq [symmetric])
  have d3: "n div 262144 = q3"
    unfolding q3_def q2_def q1_def by (simp add: div_mult2_eq [symmetric])
  have e1: "n = q1 * 64 + n mod 64" unfolding q1_def by simp
  have e2: "q1 = q2 * 64 + q1 mod 64" unfolding q2_def by simp
  have e3: "q2 = q3 * 64 + q2 mod 64" unfolding q3_def by simp
  show ?thesis
    unfolding d2 d3 q1_def [symmetric]
    using e1 e2 e3 by linarith
qed

lemma regroup3:
  fixes n :: nat
  assumes "n mod 64 = 0"
  shows "n div 262144 * 262144 + n div 4096 mod 64 * 4096 + n div 64 mod 64 * 64 = n"
  using regroup [of n] assms by simp

lemma regroup2:
  fixes n :: nat
  assumes "n mod 4096 = 0"
  shows "n div 262144 * 262144 + n div 4096 mod 64 * 4096 = n"
proof -
  from assms have "4096 dvd n" by (simp add: dvd_eq_mod_eq_0)
  then obtain k where k: "n = 4096 * k" by (auto simp: dvd_def)
  have "n mod 64 = 0" "n div 64 mod 64 = 0" unfolding k by simp_all
  then show ?thesis using regroup [of n] by simp
qed

lemma low_byte: "(of_nat (x * 256 + y) :: byte) = of_nat y"
  unfolding word_of_nat_eq_iff take_bit_eq_mod by simp

lemma bytes_block3:
  fixes a b c :: byte
  defines "n \<equiv> unat a * 65536 + unat b * 256 + unat c"
  shows "(of_nat (n div 65536) :: byte) = a" "(of_nat (n div 256) :: byte) = b" "(of_nat n :: byte) = c"
proof -
  have lt: "unat a < 256" "unat b < 256" "unat c < 256" by (rule unat_byte_lt)+
  have "n div 65536 = unat a" using lt by (simp add: n_def)
  then show "(of_nat (n div 65536) :: byte) = a" by simp
  have "n div 256 = unat a * 256 + unat b" using lt by (simp add: n_def)
  then show "(of_nat (n div 256) :: byte) = b" by (simp only: low_byte of_nat_unat) simp
  have "n = (unat a * 256 + unat b) * 256 + unat c" by (simp add: n_def)
  then show "(of_nat n :: byte) = c" by (simp only: low_byte of_nat_unat) simp
qed

lemma bytes_of_sextets_of: "bytes_of (sextets_of bs) = bs"
proof (induction bs rule: sextets_of.induct)
  case (1 a b c rest)
  define n where "n = unat a * 65536 + unat b * 256 + unat c"
  have s: "sextets_of (a # b # c # rest) =
      n div 262144 # n div 4096 mod 64 # n div 64 mod 64 # n mod 64 # sextets_of rest"
    by (simp add: n_def Let_def)
  have "bytes_of (sextets_of (a # b # c # rest)) =
      [of_nat (n div 65536), of_nat (n div 256), of_nat n] @ bytes_of (sextets_of rest)"
    unfolding s bytes_of.simps Let_def regroup ..
  also have "\<dots> = a # b # c # rest"
    using bytes_block3 [of a b c] 1 by (simp add: n_def)
  finally show ?case .
next
  case (2 a b)
  define n where "n = unat a * 65536 + unat b * 256 + unat (0 :: byte)"
  have n': "n = unat a * 65536 + unat b * 256" by (simp add: n_def)
  have "n = 64 * (unat a * 1024 + unat b * 4)" unfolding n' by simp
  then have m: "n mod 64 = 0" by (simp only: mod_mult_self1_is_0)
  have s: "sextets_of [a, b] = [n div 262144, n div 4096 mod 64, n div 64 mod 64]"
    by (simp add: n' Let_def)
  have "bytes_of (sextets_of [a, b]) = [of_nat (n div 65536), of_nat (n div 256)]"
    unfolding s bytes_of.simps Let_def regroup3 [OF m] ..
  also have "\<dots> = [a, b]"
    using bytes_block3 [of a b 0] by (simp add: n_def)
  finally show ?case .
next
  case (3 a)
  define n where "n = unat a * 65536 + unat (0 :: byte) * 256 + unat (0 :: byte)"
  have n': "n = unat a * 65536" by (simp add: n_def)
  have "n = 4096 * (unat a * 16)" unfolding n' by simp
  then have m: "n mod 4096 = 0" by (simp only: mod_mult_self1_is_0)
  have s: "sextets_of [a] = [n div 262144, n div 4096 mod 64]"
    by (simp add: n' Let_def)
  have "bytes_of (sextets_of [a]) = [of_nat (n div 65536)]"
    unfolding s bytes_of.simps Let_def regroup2 [OF m] ..
  also have "\<dots> = [a]"
    using bytes_block3 [of a 0 0] by (simp add: n_def)
  finally show ?case .
next
  case 4
  then show ?case by simp
qed

lemma sextets_lt: "x \<in> set (sextets_of bs) \<Longrightarrow> x < 64"
proof (induction bs arbitrary: x rule: sextets_of.induct)
  case (1 a b c rest)
  have "unat a < 256" "unat b < 256" "unat c < 256" by (rule unat_byte_lt)+
  then have "(unat a * 65536 + unat b * 256 + unat c) div 262144 < 64" by simp
  with 1 show ?case by (auto simp: Let_def)
next
  case (2 a b)
  have "unat a < 256" "unat b < 256" by (rule unat_byte_lt)+
  then have "(unat a * 65536 + unat b * 256) div 262144 < 64" by simp
  with 2 show ?case by (auto simp: Let_def)
next
  case (3 a)
  have "unat a < 256" by (rule unat_byte_lt)
  then have "(unat a * 65536) div 262144 < 64" by simp
  with 3 show ?case by (auto simp: Let_def)
next
  case 4
  then show ?case by simp
qed

subsection \<open>Padding\<close>

lemma padding_shape:
  "(let k = (3 - length bs mod 3) mod 3; m = length (sextets_of bs) mod 4
    in (k = 0 \<and> m = 0) \<or> (k = 1 \<and> m = 3) \<or> (k = 2 \<and> m = 2))"
proof (induction bs rule: sextets_of.induct)
  case (1 a b c rest)
  have "(length (a # b # c # rest)) mod 3 = length rest mod 3" by simp
  moreover have "length (sextets_of (a # b # c # rest)) mod 4 = length (sextets_of rest) mod 4"
    by (simp add: Let_def)
  ultimately show ?case using 1 by (simp only: Let_def)
qed (simp_all add: Let_def)

lemma strip_padding_body:
  assumes "CHR ''='' \<notin> set body"
    and "(k = 0 \<and> length body mod 4 = 0) \<or> (k = 1 \<and> length body mod 4 = 3)
         \<or> (k = 2 \<and> length body mod 4 = 2)"
  shows "strip_padding (body @ replicate k CHR ''='') = body"
proof -
  consider (none) "k = 0 \<and> length body mod 4 = 0" | (one) "k = 1 \<and> length body mod 4 = 3"
    | (two) "k = 2 \<and> length body mod 4 = 2"
    using assms(2) by blast
  then show ?thesis
  proof cases
    case none
    then have 1: "k = 0" "length body mod 4 = 0" by simp_all
    show ?thesis
    proof (cases "body = []")
      case True
      with 1 show ?thesis by (simp add: strip_padding_def)
    next
      case False
      then have "last body \<in> set body" by simp
      with assms(1) have "last body \<noteq> CHR ''=''" by metis
      with 1 show ?thesis by (simp add: strip_padding_def)
    qed
  next
    case one
    then have 2: "k = 1" "length body mod 4 = 3" by simp_all
    then have ne: "body \<noteq> []" by auto
    then have "last body \<in> set body" by simp
    with assms(1) have "last body \<noteq> CHR ''=''" by metis
    moreover have "length (body @ [CHR ''='']) mod 4 = 0"
      using 2 by (simp add: mod_Suc)
    ultimately show ?thesis using 2 ne by (simp add: strip_padding_def Let_def)
  next
    case two
    then have 3: "k = 2" "length body mod 4 = 2" by simp_all
    have r: "replicate 2 CHR ''='' = [CHR ''='', CHR ''='']" by (simp add: numeral_2_eq_2)
    have "length (body @ [CHR ''='', CHR ''='']) mod 4 = 0"
      using 3 by (simp add: mod_Suc)
    then show ?thesis
      using 3 by (simp add: strip_padding_def Let_def r butlast_append)
  qed
qed

subsection \<open>Filling the byte array\<close>

lemma fill_view_eq:
  "i \<le> length audioData \<Longrightarrow> length view = length audioData \<Longrightarrow>
   fill_view audioData i view
     = take i view @ map (\<lambda>c. of_nat (of_char c)) (drop i audioData)"
proof (induction audioData i view rule: fill_view.induct)
  case (1 audioData i view)
  show ?case
  proof (cases "i < length audioData")
    case True
    let ?v = "view[i := of_nat (of_char (audioData ! i))]"
    have "fill_view audioData i view = fill_view audioData (i + 1) ?v"
      using True by (subst fill_view.simps) simp
    also have "\<dots> = take (i + 1) ?v @ map (\<lambda>c. of_nat (of_char c)) (drop (i + 1) audioData)"
      using 1 True by simp
    also have "take (i + 1) ?v = take i view @ [of_nat (of_char (audioData ! i))]"
      using True 1(3) by (simp add: take_Suc_conv_app_nth)
    also have "(take i view @ [of_nat (of_char (audioData ! i))])
        @ map (\<lambda>c. of_nat (of_char c)) (drop (i + 1) audioData)
        = take i view @ map (\<lambda>c. of_nat (of_char c)) (drop i audioData)"
      using True by (simp add: Cons_nth_drop_Suc [symmetric])
    finally show ?thesis .
  next
    case False
    with 1(2,3) show ?thesis by (subst fill_view.simps) simp
  qed
qed

lemma byte_char_byte: "(of_nat (unat (b :: byte) mod 256) :: byte) = b"
  using unat_byte_lt [of b] by simp

text \<open>
  C9. Decoding, by the playback path, the base64 text of any sequence of audio bytes
  gives back exactly those bytes.
\<close>

theorem tts_roundtrip: "decode_tts (base64_encode bs) = Some bs"
proof -
  define ss where "ss = sextets_of bs"
  define body where "body = map sextet_char ss"
  define k where "k = (3 - length bs mod 3) mod 3"
  have lt: "\<forall>x \<in> set ss. x < 64" by (simp add: ss_def sextets_lt)
  have in_alpha: "set body \<subseteq> set base64_alphabet"
    using lt by (auto simp: body_def sextet_char_in_alphabet)
  have enc: "base64_encode bs = body @ replicate k CHR ''=''"
    by (simp add: base64_encode_def body_def ss_def k_def)
  have "\<not> is_ascii_whitespace CHR ''=''" by (simp add: is_ascii_whitespace_def)
  then have nows: "filter (\<lambda>c. \<not> is_ascii_whitespace c) (body @ replicate k CHR ''='')
      = body @ replicate k CHR ''=''"
    using in_alpha whitespace_not_in_alphabet by (auto simp: filter_id_conv)
  have shape: "(k = 0 \<and> length body mod 4 = 0) \<or> (k = 1 \<and> length body mod 4 = 3)
      \<or> (k = 2 \<and> length body mod 4 = 2)"
    using padding_shape [of bs] by (simp add: Let_def k_def body_def ss_def)
  have nopad: "CHR ''='' \<notin> set body"
    using in_alpha pad_not_in_alphabet by blast
  have strip: "strip_padding (body @ replicate k CHR ''='') = body"
    using strip_padding_body [OF nopad shape] .
  have len: "length body mod 4 \<noteq> 1" using shape by auto
  have dec: "those (map char_sextet body) = Some ss"
    unfolding body_def using lt by (rule those_char_sextet)
  have "atob (base64_encode bs) =
      (if length body mod 4 = 1 then None
       else (case those (map char_sextet body) of
               None \<Rightarrow> None
             | Some ss \<Rightarrow> Some (map (\<lambda>b. char_of (unat b)) (bytes_of ss))))"
    unfolding atob_def enc nows strip Let_def ..
  then have "atob (base64_encode bs) = Some (map (\<lambda>b. char_of (unat b)) bs)"
    using len by (simp add: dec ss_def bytes_of_sextets_of)
  then show ?thesis
    by (simp add: decode_tts_def fill_view_eq byte_char_byte comp_def)
qed

lemma run_append: "run tenv (xs @ ys) s = run tenv ys (run tenv xs s)"
  by (induction xs arbitrary: s) simp_all

subsection \<open>What each handler leaves alone\<close>

lemma log_call_frame [simp]:
  "timeRemaining (log_call c s) = timeRemaining s"
  "screenChunkIndexRef (log_call c s) = screenChunkIndexRef s"
  "sentUnder (log_call c s) = sentUnder s"
  "screenSharingStopped (log_call c s) = screenSharingStopped s"
  "interviewComplete (log_call c s) = interviewComplete s"
  "responseId (log_call c s) = responseId s"
  "timerIntervalRef (log_call c s) = timerIntervalRef s"
  "calls (log_call c s) = calls s @ [c]"
  by (simp_all add: log_call_def)

lemma alert_frame [simp]:
  "timeRemaining (recordCheatingAlert rid ty det now s) = timeRemaining s"
  "screenChunkIndexRef (recordCheatingAlert rid ty det now s) = screenChunkIndexRef s"
  "sentUnder (recordCheatingAlert rid ty det now s) = sentUnder s"
  "screenSharingStopped (recordCheatingAlert rid ty det now s) = screenSharingStopped s"
  "interviewComplete (recordCheatingAlert rid ty det now s) = interviewComplete s"
  "responseId (recordCheatingAlert rid ty det now s) = responseId s"
  "timerIntervalRef (recordCheatingAlert rid ty det now s) = timerIntervalRef s"
  by (simp_all add: recordCheatingAlert_def Let_def split: option.splits)

lemma stop_screen_frame [simp]:
  "timeRemaining (stopScreenRecording s) = timeRemaining s"
  "screenChunkIndexRef (stopScreenRecording s) = screenChunkIndexRef s"
  "sentUnder (stopScreenRecording s) = sentUnder s"
  "screenSharingStopped (stopScreenRecording s) = screenSharingStopped s"
  "interviewComplete (stopScreenRecording s) = interviewComplete s"
  "responseId (stopScreenRecording s) = responseId s"
  "timerIntervalRef (stopScreenRecording s) = timerIntervalRef s"
  "calls (stopScreenRecording s) = calls s"
  by (simp_all add: stopScreenRecording_def Let_def)

lemma stop_detached_frame [simp]:
  "timeRemaining (stopScreenRecording_detached s) = timeRemaining s"
  "screenChunkIndexRef (stopScreenRecording_detached s) = screenChunkIndexRef s"
  "sentUnder (stopScreenRecording_detached s) = sentUnder s"
  "screenSharingStopped (stopScreenRecording_detached s) = screenSharingStopped s"
  "interviewComplete (stopScreenRecording_detached s) = interviewComplete s"
  "responseId (stopScreenRecording_detached s) = responseId s"
  "timerIntervalRef (stopScreenRecording_detached s) = timerIntervalRef s"
  "calls (stopScreenRecording_detached s) = calls s"
  by (simp_all add: stopScreenRecording_detached_def split: option.splits recorder_state.splits)

lemma stop_flushed_frame [simp]:
  "timeRemaining (stop_flushed g s) = timeRemaining s"
  "screenChunkIndexRef (stop_flushed g s) = screenChunkIndexRef s"
  "sentUnder (stop_flushed g s) = sentUnder s"
  "screenSharingStopped (stop_flushed g s) = screenSharingStopped s"
  "interviewComplete (stop_flushed g s) = interviewComplete s"
  "responseId (stop_flushed g s) = responseId s"
  "timerIntervalRef (stop_flushed g s) = timerIntervalRef s"
  "calls (stop_flushed g s) = calls s"
  by (simp_all add: stop_flushed_def)

lemma resume_frame [simp]:
  "timeRemaining (resume_flush s) = timeRemaining s"
  "screenChunkIndexRef (resume_flush s) = screenChunkIndexRef s"
  "sentUnder (resume_flush s) = sentUnder s"
  "screenSharingStopped (resume_flush s) = screenSharingStopped s"
  "interviewComplete (resume_flush s) = interviewComplete s"
  "responseId (resume_flush s) = responseId s"
  "timerIntervalRef (resume_flush s) = timerIntervalRef s"
  "calls (resume_flush s) = calls s"
  "timeRemaining (resume_release s) = timeRemaining s"
  "screenChunkIndexRef (resume_release s) = screenChunkIndexRef s"
  "sentUnder (resume_release s) = sentUnder s"
  "screenSharingStopped (resume_release s) = screenSharingStopped s"
  "interviewComplete (resume_release s) = interviewComplete s"
  "responseId (resume_release s) = responseId s"
  "timerIntervalRef (resume_release s) = timerIntervalRef s"
  "calls (resume_release s) = calls s"
  by (simp_all add: resume_flush_def resume_release_def stop_released_def split: list.splits)

text \<open>
  The awaited \<open>stopScreenRecording\<close> is the detached one followed by its two resumptions,
  with nothing in between.
\<close>

lemma stop_awaited_run:
  assumes "flushesPending s = []" "stopsPending s = 0"
  shows "resume_release (resume_flush (stopScreenRecording_detached s)) = stopScreenRecording s"
proof (cases "screenRecorderRef s")
  case None
  then show ?thesis
    using assms
    by (simp add: stopScreenRecording_detached_def stopScreenRecording_def recorder_active_def
        resume_flush_def resume_release_def)
next
  case (Some st)
  then show ?thesis
    using assms
    by (cases st)
      (simp_all add: stopScreenRecording_detached_def stopScreenRecording_def
        recorder_active_def resume_flush_def resume_release_def stop_flushed_def
        stop_released_def)
qed

lemma stop_recording_frame [simp]:
  "timeRemaining (stopRecording s) = timeRemaining s"
  "screenChunkIndexRef (stopRecording s) = screenChunkIndexRef s"
  "sentUnder (stopRecording s) = sentUnder s"
  "screenSharingStopped (stopRecording s) = screenSharingStopped s"
  by (simp_all add: stopRecording_def split: option.splits)

lemma start_recording_frame [simp]:
  "timeRemaining (startRecording ok s) = timeRemaining s"
  "screenChunkIndexRef (startRecording ok s) = screenChunkIndexRef s"
  "sentUnder (startRecording ok s) = sentUnder s"
  "screenSharingStopped (startRecording ok s) = screenSharingStopped s"
  by (simp_all add: startRecording_def Let_def)

lemma toggle_frame [simp]:
  "timeRemaining (toggleRecording ok s) = timeRemaining s"
  "screenChunkIndexRef (toggleRecording ok s) = screenChunkIndexRef s"
  "sentUnder (toggleRecording ok s) = sentUnder s"
  "screenSharingStopped (toggleRecording ok s) = screenSharingStopped s"
  by (simp_all add: toggleRecording_def)

lemma play_frame [simp]:
  "timeRemaining (playTTSAudio b s) = timeRemaining s"
  "screenChunkIndexRef (playTTSAudio b s) = screenChunkIndexRef s"
  "sentUnder (playTTSAudio b s) = sentUnder s"
  "screenSharingStopped (playTTSAudio b s) = screenSharingStopped s"
  by (simp_all add: playTTSAudio_def split: option.splits)

lemma fetch_frame [simp]:
  "timeRemaining (fetchCurrentQuestion reply rid s) = timeRemaining s"
  "screenChunkIndexRef (fetchCurrentQuestion reply rid s) = screenChunkIndexRef s"
  "sentUnder (fetchCurrentQuestion reply rid s) = sentUnder s"
  "screenSharingStopped (fetchCurrentQuestion reply rid s) = screenSharingStopped s"
  by (simp_all add: fetchCurrentQuestion_def Let_def split: question_reply.splits option.splits)

lemma submit_complete_frame [simp]:
  "timeRemaining (submit_complete f qn tq s) = timeRemaining s"
  "screenChunkIndexRef (submit_complete f qn tq s) = screenChunkIndexRef s"
  "sentUnder (submit_complete f qn tq s) = sentUnder s"
  "screenSharingStopped (submit_complete f qn tq s) = screenSharingStopped s"
  by (simp_all add: submit_complete_def Let_def split: option.splits)

lemma submit_next_frame [simp]:
  "timeRemaining (submit_next reply rid s) = timeRemaining s"
  "screenChunkIndexRef (submit_next reply rid s) = screenChunkIndexRef s"
  "sentUnder (submit_next reply rid s) = sentUnder s"
  "screenSharingStopped (submit_next reply rid s) = screenSharingStopped s"
  by (simp_all add: submit_next_def Let_def)

lemma submit_response_frame [simp]:
  "timeRemaining (submit_response env rid s) = timeRemaining s"
  "screenChunkIndexRef (submit_response env rid s) = screenChunkIndexRef s"
  "sentUnder (submit_response env rid s) = sentUnder s"
  "screenSharingStopped (submit_response env rid s) = screenSharingStopped s"
  by (simp_all add: submit_response_def split: submit_reply.splits)

lemma submit_frame [simp]:
  "timeRemaining (submitAnswer env s) = timeRemaining s"
  "screenChunkIndexRef (submitAnswer env s) = screenChunkIndexRef s"
  "sentUnder (submitAnswer env s) = sentUnder s"
  "screenSharingStopped (submitAnswer env s) = screenSharingStopped s"
  by (simp_all add: submitAnswer_def Let_def split: option.splits)

lemma end_response_frame [simp]:
  "timeRemaining (end_response env rid s) = timeRemaining s"
  "screenChunkIndexRef (end_response env rid s) = screenChunkIndexRef s"
  "sentUnder (end_response env rid s) = sentUnder s"
  "screenSharingStopped (end_response env rid s) = screenSharingStopped s"
  "responseId (end_response env rid s) = responseId s"
  "timerIntervalRef (end_response env rid s) = timerIntervalRef s"
  by (simp_all add: end_response_def Let_def split: end_reply.splits detail_reply.splits option.splits)

lemma end_frame [simp]:
  "timeRemaining (endInterviewManually env s) = timeRemaining s"
  "screenChunkIndexRef (endInterviewManually env s) = screenChunkIndexRef s"
  "sentUnder (endInterviewManually env s) = sentUnder s"
  "screenSharingStopped (endInterviewManually env s) = screenSharingStopped s"
  "responseId (endInterviewManually env s) = responseId s"
  by (simp_all add: endInterviewManually_def Let_def split: option.splits)

lemma interval_callback_frame [simp]:
  "screenChunkIndexRef (interval_callback s) = screenChunkIndexRef s"
  "sentUnder (interval_callback s) = sentUnder s"
  "screenSharingStopped (interval_callback s) = screenSharingStopped s"
  "interviewComplete (interval_callback s) = interviewComplete s"
  "responseId (interval_callback s) = responseId s"
  "timerIntervalRef (interval_callback s) = timerIntervalRef s"
  "calls (interval_callback s) = calls s"
  by (simp_all add: interval_callback_def)

lemma timer_cleanup_frame [simp]:
  "timeRemaining (timer_cleanup s) = timeRemaining s"
  "screenChunkIndexRef (timer_cleanup s) = screenChunkIndexRef s"
  "sentUnder (timer_cleanup s) = sentUnder s"
  "screenSharingStopped (timer_cleanup s) = screenSharingStopped s"
  "interviewComplete (timer_cleanup s) = interviewComplete s"
  "responseId (timer_cleanup s) = responseId s"
  "calls (timer_cleanup s) = calls s"
  by (simp_all add: timer_cleanup_def split: option.splits)

lemma timer_effect_frame [simp]:
  "timeRemaining (timer_effect env s) = timeRemaining s"
  "screenChunkIndexRef (timer_effect env s) = screenChunkIndexRef s"
  "sentUnder (timer_effect env s) = sentUnder s"
  "screenSharingStopped (timer_effect env s) = screenSharingStopped s"
  "responseId (timer_effect env s) = responseId s"
  by (simp_all add: timer_effect_def Let_def)

lemma settle_timer_frame [simp]:
  "timeRemaining (settle_timer env old s) = timeRemaining s"
  "screenChunkIndexRef (settle_timer env old s) = screenChunkIndexRef s"
  "sentUnder (settle_timer env old s) = sentUnder s"
  "screenSharingStopped (settle_timer env old s) = screenSharingStopped s"
  "responseId (settle_timer env old s) = responseId s"
  by (simp_all add: settle_timer_def Let_def)

lemma completion_effect_frame [simp]:
  "timeRemaining (completion_effect old s) = timeRemaining s"
  "screenChunkIndexRef (completion_effect old s) = screenChunkIndexRef s"
  "sentUnder (completion_effect old s) = sentUnder s"
  "screenSharingStopped (completion_effect old s) = screenSharingStopped s"
  "interviewComplete (completion_effect old s) = interviewComplete s"
  "responseId (completion_effect old s) = responseId s"
  "timerIntervalRef (completion_effect old s) = timerIntervalRef s"
  "calls (completion_effect old s) = calls s"
  by (simp_all add: completion_effect_def)

lemma visibility_frame [simp]:
  "timeRemaining (handleVisibilityChange env hidden now s) = timeRemaining s"
  "screenChunkIndexRef (handleVisibilityChange env hidden now s) = screenChunkIndexRef s"
  "sentUnder (handleVisibilityChange env hidden now s) = sentUnder s"
  "screenSharingStopped (handleVisibilityChange env hidden now s) = screenSharingStopped s"
  by (simp_all add: handleVisibilityChange_def Let_def)

lemma onended_frame [simp]:
  "timeRemaining (onended rid now s) = timeRemaining s"
  "screenChunkIndexRef (onended rid now s) = screenChunkIndexRef s"
  "sentUnder (onended rid now s) = sentUnder s"
  "screenSharingStopped (onended rid now s)"
  by (simp_all add: onended_def Let_def)

lemma begin_recording_frame [simp]:
  "timeRemaining (snd (begin_recording st s)) = timeRemaining s"
  "screenSharingStopped (snd (begin_recording st s)) = screenSharingStopped s"
  by (simp_all add: begin_recording_def Let_def split: list.splits)

lemma request_display_frame [simp]:
  "timeRemaining (snd (request_display reply s)) = timeRemaining s"
  "screenSharingStopped (snd (request_display reply s)) = screenSharingStopped s"
  by (simp_all add: request_display_def Let_def split: display_reply.splits list.splits)

lemma start_screen_recording_frame [simp]:
  "timeRemaining (snd (startScreenRecording reply ex s)) = timeRemaining s"
  "screenSharingStopped (snd (startScreenRecording reply ex s)) = screenSharingStopped s"
  by (simp_all add: startScreenRecording_def split: option.splits list.splits)

lemma restart_frame [simp]:
  "timeRemaining (restartScreenSharing reply s) = timeRemaining s"
proof -
  obtain m s1 where r: "startScreenRecording reply None (s\<lparr>error := NoMessage\<rparr>) = (m, s1)"
    by (cases "startScreenRecording reply None (s\<lparr>error := NoMessage\<rparr>)")
  have "timeRemaining s1 = timeRemaining s"
    using start_screen_recording_frame(1) [of reply None "s\<lparr>error := NoMessage\<rparr>"] r
    by simp
  then show ?thesis
    by (simp add: restartScreenSharing_def r split: option.splits)
qed

lemma chunk_begin_frame [simp]:
  "timeRemaining (fst (chunk_begin data s)) = timeRemaining s"
  "screenChunkIndexRef (fst (chunk_begin data s)) = screenChunkIndexRef s"
  "screenSharingStopped (fst (chunk_begin data s)) = screenSharingStopped s"
  by (simp_all add: chunk_begin_def split: option.splits)

lemma chunk_settle_frame [simp]:
  "timeRemaining (chunk_settle env rid i s) = timeRemaining s"
  "sentUnder (chunk_settle env rid i s) = sentUnder s"
  "screenSharingStopped (chunk_settle env rid i s) = screenSharingStopped s"
  by (simp_all add: chunk_settle_def Let_def split: prod.splits sum.splits)

lemma transcript_frame [simp]:
  "timeRemaining (append_transcript text s) = timeRemaining s"
  "screenChunkIndexRef (append_transcript text s) = screenChunkIndexRef s"
  "sentUnder (append_transcript text s) = sentUnder s"
  "screenSharingStopped (append_transcript text s) = screenSharingStopped s"
  "timeRemaining (partial_transcript text fin s) = timeRemaining s"
  "screenChunkIndexRef (partial_transcript text fin s) = screenChunkIndexRef s"
  "sentUnder (partial_transcript text fin s) = sentUnder s"
  "screenSharingStopped (partial_transcript text fin s) = screenSharingStopped s"
  by (simp_all add: append_transcript_def partial_transcript_def)

lemma start_screen_frame [simp]:
  "timeRemaining (start_screen env s) = timeRemaining s"
  "screenSharingStopped (start_screen env s) = screenSharingStopped s"
proof -
  obtain m s1 where r:
    "startScreenRecording (display_reply env) (existingScreenStream env) s = (m, s1)"
    by (cases "startScreenRecording (display_reply env) (existingScreenStream env) s")
  have "timeRemaining s1 = timeRemaining s" "screenSharingStopped s1 = screenSharingStopped s"
    using start_screen_recording_frame [of "display_reply env" "existingScreenStream env" s] r
    by simp_all
  then show "timeRemaining (start_screen env s) = timeRemaining s"
    and "screenSharingStopped (start_screen env s) = screenSharingStopped s"
    by (simp_all add: start_screen_def r split: option.splits)
qed

lemma start_response_frame [simp]:
  "screenSharingStopped (start_response env s) = screenSharingStopped s"
  by (simp add: start_response_def Let_def split: start_reply.splits option.splits)

lemma start_session_frame [simp]:
  "screenSharingStopped (startSession env s) = screenSharingStopped s"
  by (simp add: startSession_def)

subsection \<open>Counting end-interview calls\<close>

lemma calls_end_response:
  "calls (end_response env rid s)
     = calls s @ (case end_reply env of EndOk _ _ \<Rightarrow> [GetResponse rid] | _ \<Rightarrow> [])"
  by (simp add: end_response_def log_call_def Let_def
      split: end_reply.splits detail_reply.splits option.splits)

lemma calls_end:
  "calls (endInterviewManually env s)
     = (case responseId s of
          None \<Rightarrow> calls s
        | Some rid \<Rightarrow>
            if rid = [] \<or> interviewComplete s then calls s
            else calls s @ (if socketRef s then [EmitEndInterview] else [])
                 @ [PostEndInterview rid]
                 @ (case end_reply env of EndOk _ _ \<Rightarrow> [GetResponse rid] | _ \<Rightarrow> []))"
  by (simp add: endInterviewManually_def calls_end_response stopScreenRecording_def
      log_call_def Let_def split: option.splits)

lemma end_calls_same: "calls s' = calls s \<Longrightarrow> end_calls s' = end_calls s"
  by (simp add: end_calls_def)

lemma end_calls_end:
  "end_calls (endInterviewManually env s)
     = (if has_id (responseId s) \<and> \<not> interviewComplete s then end_calls s + 1 else end_calls s)"
  by (simp add: end_calls_def calls_end has_id_def split: option.splits end_reply.splits)

lemma end_calls_stop_screen [simp]: "end_calls (stopScreenRecording s) = end_calls s"
  by (rule end_calls_same) simp

lemma end_calls_cleanup [simp]: "end_calls (timer_cleanup s) = end_calls s"
  by (rule end_calls_same) simp

lemma end_calls_completion [simp]: "end_calls (completion_effect old s) = end_calls s"
  by (rule end_calls_same) simp

lemma end_calls_callback [simp]: "end_calls (interval_callback s) = end_calls s"
  by (rule end_calls_same) simp

lemma end_calls_timer_ref [simp]: "end_calls (s\<lparr>timerIntervalRef := r\<rparr>) = end_calls s"
  by (simp add: end_calls_def)

lemma end_complete [simp]: "interviewComplete s \<Longrightarrow> endInterviewManually env s = s"
  by (simp add: endInterviewManually_def split: option.splits)

lemma end_no_id [simp]: "\<not> has_id (responseId s) \<Longrightarrow> endInterviewManually env s = s"
  by (simp add: endInterviewManually_def has_id_def split: option.splits)

lemma end_keeps_complete: "interviewComplete s \<Longrightarrow> interviewComplete (endInterviewManually env s)"
  by simp

lemma end_timer_ref:
  "has_id (responseId s) \<Longrightarrow> \<not> interviewComplete s \<Longrightarrow>
   timerIntervalRef (endInterviewManually env s) = None"
  by (simp add: endInterviewManually_def has_id_def Let_def split: option.splits)

lemma settle_same [simp]: "settle_timer env s s = s"
  by (simp add: settle_timer_def)

lemma completion_same [simp]: "completion_effect s s = s"
  by (simp add: completion_effect_def)

subsection \<open>The timer effect\<close>

lemma timer_effect_running:
  assumes "timeRemaining s = Some t" "0 < t" "\<not> interviewComplete s"
  shows "timer_effect env s = s\<lparr>timerIntervalRef := Some True\<rparr>"
  using assms by (simp add: timer_effect_def)

lemma timer_effect_complete:
  assumes "interviewComplete s"
  shows "timer_effect env s = s\<lparr>timerIntervalRef := None\<rparr>"
  using assms by (simp add: timer_effect_def Let_def)

lemma timer_effect_untimed:
  assumes "timeRemaining s = None"
  shows "timer_effect env s = s\<lparr>timerIntervalRef := None\<rparr>"
  using assms by (simp add: timer_effect_def Let_def)

lemma timer_effect_expired:
  assumes "timeRemaining s = Some 0" "\<not> interviewComplete s" "has_id (responseId s)"
  shows "timer_effect env s = endInterviewManually env (s\<lparr>timerIntervalRef := None\<rparr>)"
  using assms by (simp add: timer_effect_def Let_def)

text \<open>
  \<open>settle_timer\<close> runs the effect at most twice. That is enough: when the first round has
  changed what the effect depends on, it has completed the interview, and the second
  round changes nothing the effect depends on.
\<close>

lemma second_round_is_last:
  assumes "timer_deps (timer_effect env (timer_cleanup s)) \<noteq> timer_deps s"
  shows "timer_deps (timer_effect env (timer_cleanup (timer_effect env (timer_cleanup s))))
     = timer_deps (timer_effect env (timer_cleanup s))"
proof -
  let ?s1 = "timer_effect env (timer_cleanup s)"
  have "interviewComplete ?s1"
  proof (rule ccontr)
    assume live: "\<not> interviewComplete ?s1"
    have "interviewComplete s \<Longrightarrow> interviewComplete ?s1"
      by (simp add: timer_effect_complete)
    with live have "\<not> interviewComplete s" by blast
    with live have "timer_deps ?s1 = timer_deps s" by (simp add: timer_deps_def)
    with assms show False by simp
  qed
  then have "timer_effect env (timer_cleanup ?s1) = (timer_cleanup ?s1)\<lparr>timerIntervalRef := None\<rparr>"
    by (intro timer_effect_complete) simp
  then show ?thesis by (simp add: timer_deps_def)
qed

subsection \<open>The remaining time\<close>

lemma start_response_time:
  "timeRemaining (start_response env s)
     = (case start_reply env of
          StartOk rid (Some d) \<Rightarrow> if 0 < d then Some (d * 60) else timeRemaining s
        | _ \<Rightarrow> timeRemaining s)"
  by (simp add: start_response_def Let_def split: start_reply.splits option.splits)

lemma start_session_time:
  "timeRemaining (startSession env s)
     = (if sessionInitializedRef s then timeRemaining s
        else (case start_reply env of
                StartOk rid (Some d) \<Rightarrow> if 0 < d then Some (d * 60) else timeRemaining s
              | _ \<Rightarrow> timeRemaining s))"
  by (simp add: startSession_def start_response_time split: start_reply.splits option.splits)

lemma handle_time_ok:
  assumes "\<forall>t. timeRemaining s = Some t \<longrightarrow> 0 \<le> t"
  shows "\<forall>t. timeRemaining (handle ev s) = Some t \<longrightarrow> 0 \<le> t"
proof (cases ev)
  case (StartSession env)
  with assms show ?thesis
    by (auto simp: start_session_time split: start_reply.splits option.splits if_splits)
next
  case Tick
  with assms show ?thesis
    by (auto simp: interval_callback_def split: option.splits)
qed (use assms in simp_all)

lemma step_time: "timeRemaining (step tenv ev s) = timeRemaining (handle ev s)"
  by (simp add: step_def)

lemma run_time_ok:
  "\<forall>t. timeRemaining s = Some t \<longrightarrow> 0 \<le> t \<Longrightarrow>
   \<forall>t. timeRemaining (run tenv evs s) = Some t \<longrightarrow> 0 \<le> t"
proof (induction evs arbitrary: s)
  case Nil
  then show ?case by simp
next
  case (Cons ev evs)
  have "\<forall>t. timeRemaining (step tenv ev s) = Some t \<longrightarrow> 0 \<le> t"
    using handle_time_ok [OF Cons.prems, of ev] by (simp add: step_time)
  from Cons.IH [OF this] show ?case by simp
qed

text \<open>
  C10. The remaining time is never negative in a state the session can reach, and a
  timer update maps a missing value and any value up to 1 to 0 and decrements every
  larger value by 1.
\<close>

theorem time_remaining_never_negative:
  "(\<forall>t. timeRemaining (run tenv evs (init_session now)) = Some t \<longrightarrow> 0 \<le> t)
   \<and> (timeRemaining s = None \<longrightarrow> timeRemaining (interval_callback s) = Some 0)
   \<and> (\<forall>prev. timeRemaining s = Some prev \<longrightarrow>
         timeRemaining (interval_callback s) = Some (if prev \<le> 1 then 0 else prev - 1))"
proof -
  have "\<forall>t. timeRemaining (init_session now) = Some t \<longrightarrow> 0 \<le> t"
    by (simp add: init_session_def)
  from run_time_ok [OF this] show ?thesis
    by (simp add: interval_callback_def)
qed

subsection \<open>Ending twice\<close>

text \<open>
  C5. Ending the interview when the session is already complete changes nothing: the
  state, and with it the log of backend calls, stays as it was; a second call after a
  call that completed the session is such a call.
\<close>

theorem end_when_complete_is_noop:
  "(interviewComplete s \<longrightarrow>
      endInterviewManually env s = s \<and> step tenv (EndInterview env) s = s)
   \<and> (interviewComplete (endInterviewManually env s) \<longrightarrow>
        endInterviewManually env' (endInterviewManually env s) = endInterviewManually env s)"
  by (simp add: step_def)

subsection \<open>The state after the session has started\<close>

lemma end_calls_fields [simp]:
  "end_calls (s\<lparr>loading := b\<rparr>) = end_calls s"
  "end_calls (s\<lparr>error := m\<rparr>) = end_calls s"
  "end_calls (s\<lparr>interviewComplete := c\<rparr>) = end_calls s"
  "end_calls (s\<lparr>timeRemaining := t\<rparr>) = end_calls s"
  "end_calls (s\<lparr>socketRef := b\<rparr>) = end_calls s"
  "end_calls (s\<lparr>sessionInitializedRef := b\<rparr>) = end_calls s"
  "end_calls (s\<lparr>responseId := r\<rparr>) = end_calls s"
  "end_calls (s\<lparr>tabSwitchCountRef := n\<rparr>) = end_calls s"
  "end_calls (s\<lparr>screenSharingStopped := b\<rparr>) = end_calls s"
  by (simp_all add: end_calls_def)

lemma fetch_session [simp]:
  "responseId (fetchCurrentQuestion reply rid s) = responseId s"
  "timerIntervalRef (fetchCurrentQuestion reply rid s) = timerIntervalRef s"
  "interviewComplete (fetchCurrentQuestion reply rid s)
     = (reply = QuestionComplete \<or> interviewComplete s)"
  "end_calls (fetchCurrentQuestion reply rid s) = end_calls s"
  by (simp_all add: fetchCurrentQuestion_def playTTSAudio_def end_calls_def log_call_def Let_def
      split: question_reply.splits option.splits)

lemma begin_recording_session [simp]:
  "responseId (snd (begin_recording st s)) = responseId s"
  "timerIntervalRef (snd (begin_recording st s)) = timerIntervalRef s"
  "interviewComplete (snd (begin_recording st s)) = interviewComplete s"
  "calls (snd (begin_recording st s)) = calls s"
  by (simp_all add: begin_recording_def Let_def split: list.splits)

lemma request_display_session [simp]:
  "responseId (snd (request_display reply s)) = responseId s"
  "timerIntervalRef (snd (request_display reply s)) = timerIntervalRef s"
  "interviewComplete (snd (request_display reply s)) = interviewComplete s"
  "end_calls (snd (request_display reply s)) = end_calls s"
  by (simp_all add: request_display_def end_calls_def log_call_def Let_def
      split: display_reply.splits list.splits)

lemma end_calls_begin_recording [simp]:
  "end_calls (snd (begin_recording st s)) = end_calls s"
  by (rule end_calls_same) simp

lemma start_screen_recording_session [simp]:
  "responseId (snd (startScreenRecording reply ex s)) = responseId s"
  "timerIntervalRef (snd (startScreenRecording reply ex s)) = timerIntervalRef s"
  "interviewComplete (snd (startScreenRecording reply ex s)) = interviewComplete s"
  "end_calls (snd (startScreenRecording reply ex s)) = end_calls s"
  by (simp_all add: startScreenRecording_def split: option.splits list.splits)

lemma start_screen_session [simp]:
  "responseId (start_screen env s) = responseId s"
  "timerIntervalRef (start_screen env s) = timerIntervalRef s"
  "interviewComplete (start_screen env s) = interviewComplete s"
  "end_calls (start_screen env s) = end_calls s"
proof -
  obtain m s1 where r:
    "startScreenRecording (display_reply env) (existingScreenStream env) s = (m, s1)"
    by (cases "startScreenRecording (display_reply env) (existingScreenStream env) s")
  have "responseId s1 = responseId s" "timerIntervalRef s1 = timerIntervalRef s"
    "interviewComplete s1 = interviewComplete s" "end_calls s1 = end_calls s"
    using start_screen_recording_session [of "display_reply env" "existingScreenStream env" s] r
    by simp_all
  then show "responseId (start_screen env s) = responseId s"
    and "timerIntervalRef (start_screen env s) = timerIntervalRef s"
    and "interviewComplete (start_screen env s) = interviewComplete s"
    and "end_calls (start_screen env s) = end_calls s"
    by (simp_all add: start_screen_def r split: option.splits)
qed

lemma started_session:
  assumes "start_reply env = StartOk (Some rid) dur" "rid \<noteq> []"
  shows "responseId (startSession env (init_session now)) = Some rid"
    and "timerIntervalRef (startSession env (init_session now)) = None"
    and "interviewComplete (startSession env (init_session now))
           = (first_question env = QuestionComplete)"
    and "end_calls (startSession env (init_session now)) = 0"
    and "timeRemaining (startSession env (init_session now))
           = (case dur of None \<Rightarrow> None | Some d \<Rightarrow> if 0 < d then Some (d * 60) else None)"
proof -
  let ?c = "(init_session now)\<lparr>loading := True, sessionInitializedRef := True,
              responseId := Some rid\<rparr>"
  have init: "\<not> sessionInitializedRef (init_session now)" "end_calls (init_session now) = 0"
    "timeRemaining (init_session now) = None" "\<not> interviewComplete (init_session now)"
    "timerIntervalRef (init_session now) = None"
    by (simp_all add: init_session_def end_calls_def)
  show "responseId (startSession env (init_session now)) = Some rid"
    using assms init
    by (simp add: startSession_def start_response_def Let_def split: option.splits)
  show "timerIntervalRef (startSession env (init_session now)) = None"
    using assms init
    by (simp add: startSession_def start_response_def Let_def split: option.splits)
  show "interviewComplete (startSession env (init_session now))
           = (first_question env = QuestionComplete)"
    using assms init
    by (simp add: startSession_def start_response_def Let_def split: option.splits)
  show "end_calls (startSession env (init_session now)) = 0"
    using assms init
    by (simp add: startSession_def start_response_def Let_def split: option.splits)
  show "timeRemaining (startSession env (init_session now))
           = (case dur of None \<Rightarrow> None | Some d \<Rightarrow> if 0 < d then Some (d * 60) else None)"
    using assms init
    by (simp add: start_session_time split: option.splits)
qed

subsection \<open>Counting down\<close>

lemma step_started:
  assumes "start_reply env = StartOk (Some rid) dur" "rid \<noteq> []"
    and "first_question env \<noteq> QuestionComplete"
  shows "timeRemaining (step tenv (StartSession env) (init_session now))
           = (case dur of None \<Rightarrow> None | Some d \<Rightarrow> if 0 < d then Some (d * 60) else None)"
    and "\<not> interviewComplete (step tenv (StartSession env) (init_session now))"
    and "responseId (step tenv (StartSession env) (init_session now)) = Some rid"
    and "end_calls (step tenv (StartSession env) (init_session now)) = 0"
    and "timerIntervalRef (step tenv (StartSession env) (init_session now))
           = (case dur of None \<Rightarrow> None | Some d \<Rightarrow> if 0 < d then Some True else None)"
proof -
  let ?s = "startSession env (init_session now)"
  note st = started_session [OF assms(1,2), of now]
  have nc: "\<not> interviewComplete ?s" using st(3) assms(3) by simp
  have deps: "timer_deps ?s \<noteq> timer_deps (init_session now)"
    using st(1) by (simp add: timer_deps_def init_session_def)
  have clean: "timer_cleanup ?s = ?s" using st(2) by (simp add: timer_cleanup_def)
  have eff: "timer_effect tenv ?s
      = ?s\<lparr>timerIntervalRef :=
             (case dur of None \<Rightarrow> None | Some d \<Rightarrow> if 0 < d then Some True else None)\<rparr>"
  proof (cases "\<exists>d. dur = Some d \<and> 0 < d")
    case True
    then obtain d where d: "dur = Some d" "0 < d" by blast
    then have "timeRemaining ?s = Some (d * 60)" "0 < d * 60" using st(5) by simp_all
    from timer_effect_running [OF this nc] d show ?thesis by simp
  next
    case False
    then have "timeRemaining ?s = None" using st(5) by (auto split: option.splits)
    from timer_effect_untimed [OF this] False show ?thesis by (auto split: option.splits)
  qed
  have settle: "settle_timer tenv (init_session now) ?s
      = ?s\<lparr>timerIntervalRef :=
             (case dur of None \<Rightarrow> None | Some d \<Rightarrow> if 0 < d then Some True else None)\<rparr>"
  proof -
    have "timer_deps (?s\<lparr>timerIntervalRef :=
             (case dur of None \<Rightarrow> None | Some d \<Rightarrow> if 0 < d then Some True else None)\<rparr>)
          = timer_deps ?s"
      by (simp add: timer_deps_def)
    then show ?thesis using deps by (simp add: settle_timer_def clean eff Let_def)
  qed
  have step: "step tenv (StartSession env) (init_session now)
      = ?s\<lparr>timerIntervalRef :=
             (case dur of None \<Rightarrow> None | Some d \<Rightarrow> if 0 < d then Some True else None)\<rparr>"
    using nc by (simp add: step_def settle completion_effect_def)
  show "timeRemaining (step tenv (StartSession env) (init_session now))
           = (case dur of None \<Rightarrow> None | Some d \<Rightarrow> if 0 < d then Some (d * 60) else None)"
    unfolding step using st(5) by simp
  show "\<not> interviewComplete (step tenv (StartSession env) (init_session now))"
    unfolding step using nc by simp
  show "responseId (step tenv (StartSession env) (init_session now)) = Some rid"
    unfolding step using st(1) by simp
  show "end_calls (step tenv (StartSession env) (init_session now)) = 0"
    unfolding step using st(4) by simp
  show "timerIntervalRef (step tenv (StartSession env) (init_session now))
           = (case dur of None \<Rightarrow> None | Some d \<Rightarrow> if 0 < d then Some True else None)"
    unfolding step by simp
qed

lemma tick_idle: "timerIntervalRef s \<noteq> Some True \<Longrightarrow> step tenv Tick s = s"
  by (simp add: step_def)

lemma run_ticks_idle:
  "timerIntervalRef s \<noteq> Some True \<Longrightarrow> run tenv (replicate k Tick) s = s"
  by (induction k) (simp_all add: tick_idle)

lemma tick_counting:
  assumes "timeRemaining s = Some t" "1 < t" "\<not> interviewComplete s"
    and "timerIntervalRef s = Some True"
  shows "step tenv Tick s = s\<lparr>timeRemaining := Some (t - 1)\<rparr>"
proof -
  let ?s1 = "s\<lparr>timeRemaining := Some (t - 1)\<rparr>"
  have cb: "handle Tick s = ?s1"
    using assms by (simp add: interval_callback_def)
  have deps: "timer_deps ?s1 \<noteq> timer_deps s"
    using assms by (simp add: timer_deps_def)
  have clean: "timer_cleanup ?s1 = ?s1\<lparr>timerIntervalRef := Some False\<rparr>"
    using assms by (simp add: timer_cleanup_def)
  have "timer_effect tenv (?s1\<lparr>timerIntervalRef := Some False\<rparr>)
      = ?s1\<lparr>timerIntervalRef := Some False, timerIntervalRef := Some True\<rparr>"
    using assms by (intro timer_effect_running [where t = "t - 1"]) simp_all
  also have "\<dots> = ?s1" using assms by simp
  finally have eff: "timer_effect tenv (timer_cleanup ?s1) = ?s1" unfolding clean .
  have "settle_timer tenv s ?s1 = ?s1"
    using deps by (simp add: settle_timer_def eff Let_def)
  then show ?thesis
    unfolding step_def cb by (simp add: completion_effect_def)
qed

lemma run_ticks_before:
  "timeRemaining s = Some t \<Longrightarrow> int k < t \<Longrightarrow> \<not> interviewComplete s \<Longrightarrow>
   timerIntervalRef s = Some True \<Longrightarrow>
   run tenv (replicate k Tick) s = s\<lparr>timeRemaining := Some (t - int k)\<rparr>"
proof (induction k arbitrary: s t)
  case 0
  then show ?case by simp
next
  case (Suc k)
  from Suc.prems have t: "1 < t" by simp
  let ?s1 = "s\<lparr>timeRemaining := Some (t - 1)\<rparr>"
  have step: "step tenv Tick s = ?s1"
    using tick_counting [OF Suc.prems(1) t Suc.prems(3,4)] .
  have "run tenv (replicate k Tick) ?s1 = ?s1\<lparr>timeRemaining := Some (t - 1 - int k)\<rparr>"
    using Suc.prems by (intro Suc.IH) simp_all
  then show ?case by (simp add: step algebra_simps)
qed

lemma tick_expiry:
  assumes "timeRemaining s = Some t" "0 < t" "t \<le> 1" "\<not> interviewComplete s"
    and "has_id (responseId s)" "timerIntervalRef s = Some True"
  shows "timeRemaining (step tenv Tick s) = Some 0"
    and "end_calls (step tenv Tick s) = end_calls s + 1"
    and "timerIntervalRef (step tenv Tick s) = None"
proof -
  let ?s1 = "s\<lparr>timeRemaining := Some 0\<rparr>"
  let ?s2 = "endInterviewManually tenv (?s1\<lparr>timerIntervalRef := None\<rparr>)"
  have cb: "handle Tick s = ?s1"
    using assms by (simp add: interval_callback_def)
  have deps: "timer_deps ?s1 \<noteq> timer_deps s"
    using assms by (simp add: timer_deps_def)
  have "timer_effect tenv (timer_cleanup ?s1)
      = endInterviewManually tenv ((timer_cleanup ?s1)\<lparr>timerIntervalRef := None\<rparr>)"
    using assms by (intro timer_effect_expired) simp_all
  also have "(timer_cleanup ?s1)\<lparr>timerIntervalRef := None\<rparr> = ?s1\<lparr>timerIntervalRef := None\<rparr>"
    using assms by (simp add: timer_cleanup_def)
  finally have eff: "timer_effect tenv (timer_cleanup ?s1) = ?s2" .
  have calls2: "end_calls ?s2 = end_calls s + 1"
    using assms by (simp add: end_calls_end)
  have ref2: "timerIntervalRef ?s2 = None"
    using assms by (intro end_timer_ref) simp_all
  have time2: "timeRemaining ?s2 = Some 0" by simp
  let ?s3 = "settle_timer tenv s ?s1"
  have s3: "timeRemaining ?s3 = Some 0 \<and> end_calls ?s3 = end_calls s + 1
      \<and> timerIntervalRef ?s3 = None"
  proof (cases "timer_deps ?s2 = timer_deps ?s1")
    case True
    then have "?s3 = ?s2" using deps by (simp add: settle_timer_def eff Let_def)
    then show ?thesis using calls2 ref2 time2 by simp
  next
    case False
    then have c: "interviewComplete ?s2" using assms by (simp add: timer_deps_def)
    have "?s3 = timer_effect tenv (timer_cleanup ?s2)"
      using deps False by (simp add: settle_timer_def eff Let_def)
    also have "\<dots> = (timer_cleanup ?s2)\<lparr>timerIntervalRef := None\<rparr>"
      using c by (intro timer_effect_complete) simp
    finally show ?thesis using calls2 by simp
  qed
  show "timeRemaining (step tenv Tick s) = Some 0"
    and "end_calls (step tenv Tick s) = end_calls s + 1"
    and "timerIntervalRef (step tenv Tick s) = None"
    unfolding step_def cb using s3 by simp_all
qed

lemma run_ticks_expiry:
  assumes "timeRemaining s = Some t" "0 < t" "\<not> interviewComplete s"
    and "has_id (responseId s)" "timerIntervalRef s = Some True" "nat t \<le> k"
  shows "timeRemaining (run tenv (replicate k Tick) s) = Some 0"
    and "end_calls (run tenv (replicate k Tick) s) = end_calls s + 1"
proof -
  define m where "m = nat t - 1"
  let ?s1 = "s\<lparr>timeRemaining := Some (t - int m)\<rparr>"
  have m: "int m < t" "t - int m = 1" using assms(2) by (simp_all add: m_def)
  have before: "run tenv (replicate m Tick) s = ?s1"
    using run_ticks_before [OF assms(1) m(1) assms(3,5)] .
  have k: "replicate k Tick = replicate m Tick @ [Tick] @ replicate (k - Suc m) Tick"
  proof -
    have "k = m + (1 + (k - Suc m))" using assms(2,6) by (simp add: m_def)
    then have "replicate k Tick = replicate (m + (1 + (k - Suc m))) Tick" by simp
    then show ?thesis by (simp only: replicate_add) simp
  qed
  let ?s2 = "step tenv Tick ?s1"
  have p: "timeRemaining ?s1 = Some 1" "\<not> interviewComplete ?s1" "has_id (responseId ?s1)"
    "timerIntervalRef ?s1 = Some True"
    using assms m by simp_all
  have exp: "timeRemaining ?s2 = Some 0" "end_calls ?s2 = end_calls ?s1 + 1"
    "timerIntervalRef ?s2 = None"
    using tick_expiry [OF p(1) _ _ p(2,3,4), of tenv] by simp_all
  then have idle: "run tenv (replicate (k - Suc m) Tick) ?s2 = ?s2"
    by (intro run_ticks_idle) simp
  have "run tenv (replicate k Tick) s = ?s2"
    unfolding k run_append before using idle by simp
  then show "timeRemaining (run tenv (replicate k Tick) s) = Some 0"
    and "end_calls (run tenv (replicate k Tick) s) = end_calls s + 1"
    using exp by simp_all
qed

text \<open>
  C6. When start-interview returns a duration of 10 minutes (and an id, and the interview
  is not already over), the remaining time starts at 600, is 599 after one tick and
  600 - k after k ticks, reaches 0 after 600 ticks, and the end-of-interview call has
  been made not at all before the 600th tick and exactly once from then on.
\<close>

theorem ten_minute_countdown:
  assumes "start_reply env = StartOk (Some rid) (Some 10)" and "rid \<noteq> []"
    and "first_question env \<noteq> QuestionComplete"
  shows "timeRemaining (step tenv (StartSession env) (init_session now)) = Some 600
    \<and> timeRemaining (run tenv [Tick] (step tenv (StartSession env) (init_session now)))
        = Some 599
    \<and> (\<forall>k \<le> 600. timeRemaining
          (run tenv (replicate k Tick) (step tenv (StartSession env) (init_session now)))
          = Some (600 - int k))
    \<and> (\<forall>k < 600. end_calls
          (run tenv (replicate k Tick) (step tenv (StartSession env) (init_session now))) = 0)
    \<and> (\<forall>k \<ge> 600. end_calls
          (run tenv (replicate k Tick) (step tenv (StartSession env) (init_session now))) = 1)"
proof -
  let ?s = "step tenv (StartSession env) (init_session now)"
  note st = step_started [OF assms, where tenv = tenv and now = now]
  have time: "timeRemaining ?s = Some 600" using st(1) by simp
  have live: "\<not> interviewComplete ?s" using st(2) .
  have id: "has_id (responseId ?s)" using st(3) assms(2) by (simp add: has_id_def)
  have none: "end_calls ?s = 0" using st(4) .
  have armed: "timerIntervalRef ?s = Some True" using st(5) by simp
  have before: "run tenv (replicate k Tick) ?s = ?s\<lparr>timeRemaining := Some (600 - int k)\<rparr>"
    if "k < 600" for k
    using that by (intro run_ticks_before [OF time _ live armed]) simp
  have one: "timeRemaining (run tenv [Tick] ?s) = Some 599"
    using before [of 1] by (simp add: numeral_eq_Suc)
  have at_end: "timeRemaining (run tenv (replicate k Tick) ?s) = Some 0"
    "end_calls (run tenv (replicate k Tick) ?s) = 1" if "600 \<le> k" for k
    using run_ticks_expiry [OF time _ live id armed, of k tenv] that none by simp_all
  have "timeRemaining (run tenv (replicate k Tick) ?s) = Some (600 - int k)" if "k \<le> 600" for k
  proof (cases "k < 600")
    case True
    then show ?thesis by (simp add: before)
  next
    case False
    with that have "k = 600" by simp
    then show ?thesis using at_end(1) [of k] by simp
  qed
  moreover have "end_calls (run tenv (replicate k Tick) ?s) = 0" if "k < 600" for k
    using that none by (simp add: before end_calls_def)
  ultimately show ?thesis using time one at_end(2) by blast
qed

subsection \<open>A session without a time limit\<close>

lemma untimed_session:
  assumes "start_reply env = StartOk (Some rid) (Some 0)" and "rid \<noteq> []"
    and "first_question env \<noteq> QuestionComplete"
  shows "timeRemaining (run tenv (replicate k Tick) (step tenv (StartSession env) (init_session now)))
           = None"
    and "end_calls (run tenv (replicate k Tick) (step tenv (StartSession env) (init_session now)))
           = 0"
    and "\<not> interviewComplete
           (run tenv (replicate k Tick) (step tenv (StartSession env) (init_session now)))"
    and "timerIntervalRef (step tenv (StartSession env) (init_session now)) = None"
proof -
  let ?s = "step tenv (StartSession env) (init_session now)"
  note st = step_started [OF assms, where tenv = tenv and now = now]
  have ref: "timerIntervalRef ?s = None" using st(5) by simp
  then have "run tenv (replicate k Tick) ?s = ?s"
    by (intro run_ticks_idle) simp
  then show "timeRemaining (run tenv (replicate k Tick) ?s) = None"
    and "end_calls (run tenv (replicate k Tick) ?s) = 0"
    and "\<not> interviewComplete (run tenv (replicate k Tick) ?s)"
    and "timerIntervalRef ?s = None"
    using st ref by simp_all
qed

subsection \<open>The integrity log\<close>

lemma log_call_alerts [simp]:
  "tabSwitchCountRef (log_call c s) = tabSwitchCountRef s"
  "cheatingAlertsRef (log_call c s) = cheatingAlertsRef s"
  by (simp_all add: log_call_def)

lemma alert_appended [simp]:
  "cheatingAlertsRef (recordCheatingAlert rid ty det now s)
     = cheatingAlertsRef s @ [\<lparr>alert_type = ty, timestamp = now, alert_details = det\<rparr>]"
  "tabSwitchCountRef (recordCheatingAlert rid ty det now s) = tabSwitchCountRef s"
  "end_calls (recordCheatingAlert rid ty det now s) = end_calls s"
  by (simp_all add: recordCheatingAlert_def end_calls_def log_call_def Let_def split: option.splits)

lemma stop_screen_alerts [simp]:
  "tabSwitchCountRef (stopScreenRecording s) = tabSwitchCountRef s"
  "cheatingAlertsRef (stopScreenRecording s) = cheatingAlertsRef s"
  by (simp_all add: stopScreenRecording_def Let_def)

lemma stop_detached_alerts [simp]:
  "tabSwitchCountRef (stopScreenRecording_detached s) = tabSwitchCountRef s"
  "cheatingAlertsRef (stopScreenRecording_detached s) = cheatingAlertsRef s"
  by (simp_all add: stopScreenRecording_detached_def split: option.splits recorder_state.splits)

lemma end_response_alerts [simp]:
  "tabSwitchCountRef (end_response env rid s) = tabSwitchCountRef s"
  "cheatingAlertsRef (end_response env rid s) = cheatingAlertsRef s"
  by (simp_all add: end_response_def Let_def
      split: end_reply.splits detail_reply.splits option.splits)

lemma end_alerts [simp]:
  "tabSwitchCountRef (endInterviewManually env s) = tabSwitchCountRef s"
  "cheatingAlertsRef (endInterviewManually env s) = cheatingAlertsRef s"
  by (simp_all add: endInterviewManually_def Let_def split: option.splits)

lemma timer_cleanup_alerts [simp]:
  "tabSwitchCountRef (timer_cleanup s) = tabSwitchCountRef s"
  "cheatingAlertsRef (timer_cleanup s) = cheatingAlertsRef s"
  by (simp_all add: timer_cleanup_def split: option.splits)

lemma timer_effect_alerts [simp]:
  "tabSwitchCountRef (timer_effect env s) = tabSwitchCountRef s"
  "cheatingAlertsRef (timer_effect env s) = cheatingAlertsRef s"
  by (simp_all add: timer_effect_def Let_def)

lemma settle_timer_alerts [simp]:
  "tabSwitchCountRef (settle_timer env old s) = tabSwitchCountRef s"
  "cheatingAlertsRef (settle_timer env old s) = cheatingAlertsRef s"
  by (simp_all add: settle_timer_def Let_def)

lemma completion_alerts [simp]:
  "tabSwitchCountRef (completion_effect old s) = tabSwitchCountRef s"
  "cheatingAlertsRef (completion_effect old s) = cheatingAlertsRef s"
  by (simp_all add: completion_effect_def)

lemma settle_after_handler:
  assumes "timeRemaining s = timeRemaining old" "responseId s = responseId old"
    and "\<not> interviewComplete old"
  shows "end_calls (settle_timer env old s) = end_calls s"
proof (cases "timer_deps s = timer_deps old")
  case True
  then show ?thesis by (simp add: settle_timer_def)
next
  case False
  with assms have c: "interviewComplete s" by (simp add: timer_deps_def)
  then have eff: "timer_effect env (timer_cleanup s) = (timer_cleanup s)\<lparr>timerIntervalRef := None\<rparr>"
    by (intro timer_effect_complete) simp
  have "timer_deps ((timer_cleanup s)\<lparr>timerIntervalRef := None\<rparr>) = timer_deps s"
    by (simp add: timer_deps_def)
  then have "settle_timer env old s = (timer_cleanup s)\<lparr>timerIntervalRef := None\<rparr>"
    using False by (simp add: settle_timer_def eff Let_def)
  then show ?thesis by simp
qed

lemma visibility_hidden:
  assumes "monitoring s"
  shows "tabSwitchCountRef (handleVisibilityChange env True now s) = tabSwitchCountRef s + 1"
    and "cheatingAlertsRef (handleVisibilityChange env True now s)
          = cheatingAlertsRef s
            @ [\<lparr>alert_type = ''tab_switch'', timestamp = now,
                alert_details = TabSwitched (tabSwitchCountRef s + 1)\<rparr>]"
    and "end_calls (handleVisibilityChange env True now s)
          = (if 3 \<le> tabSwitchCountRef s + 1 then end_calls s + 1 else end_calls s)"
    and "responseId (handleVisibilityChange env True now s) = responseId s"
  using assms
  by (simp_all add: handleVisibilityChange_def monitoring_def Let_def end_calls_end)

text \<open>
  C4. While the session is monitored, a switch to a hidden page increments the
  tab-switch counter and appends a tab_switch alert; the end-of-interview call is made
  when the counter has reached 3 (or more), and is not made below 3, so not at 2.
\<close>

theorem tab_switch_threshold:
  assumes "monitoring s"
  shows "tabSwitchCountRef (step tenv (VisibilityChange env True now) s)
           = tabSwitchCountRef s + 1
    \<and> cheatingAlertsRef (step tenv (VisibilityChange env True now) s)
        = cheatingAlertsRef s
          @ [\<lparr>alert_type = ''tab_switch'', timestamp = now,
              alert_details = TabSwitched (tabSwitchCountRef s + 1)\<rparr>]
    \<and> (tabSwitchCountRef s + 1 = 3 \<longrightarrow>
          end_calls (step tenv (VisibilityChange env True now) s) = end_calls s + 1)
    \<and> (tabSwitchCountRef s + 1 = 2 \<longrightarrow>
          end_calls (step tenv (VisibilityChange env True now) s) = end_calls s)
    \<and> end_calls (step tenv (VisibilityChange env True now) s)
        = (if 3 \<le> tabSwitchCountRef s + 1 then end_calls s + 1 else end_calls s)"
proof -
  let ?h = "handleVisibilityChange env True now s"
  have h: "handle (VisibilityChange env True now) s = ?h"
    using assms by simp
  have live: "\<not> interviewComplete s" using assms by (simp add: monitoring_def)
  have "end_calls (settle_timer tenv s ?h) = end_calls ?h"
    by (intro settle_after_handler) (simp_all add: visibility_hidden(4) [OF assms] live)
  then show ?thesis
    unfolding step_def h using visibility_hidden [OF assms, of env now] by simp
qed

subsection \<open>Screen sharing stopped\<close>

lemma onended_session [simp]:
  "interviewComplete (onended rid now s) = interviewComplete s"
  "responseId (onended rid now s) = responseId s"
  "cheatingAlertsRef (onended rid now s)
     = cheatingAlertsRef s
       @ [\<lparr>alert_type = ''screen_sharing_stopped'', timestamp = now,
           alert_details = Details ''User stopped screen sharing''\<rparr>]"
  by (simp_all add: onended_def Let_def)

lemma step_quiet:
  assumes "timer_deps (handle ev s) = timer_deps s"
  shows "step tenv ev s = handle ev s"
proof -
  have "settle_timer tenv s (handle ev s) = handle ev s"
    using assms by (simp add: settle_timer_def)
  moreover have "completion_effect s (handle ev s) = handle ev s"
    using assms by (simp add: completion_effect_def timer_deps_def)
  ultimately show ?thesis by (simp add: step_def)
qed

lemma step_stopped [simp]:
  "screenSharingStopped (step tenv ev s) = screenSharingStopped (handle ev s)"
  by (simp add: step_def)

lemma submit_blocked:
  assumes "screenSharingStopped s"
  shows "submitAnswer env s
     = s\<lparr>error := (if \<not> has_id (responseId s) \<or> trim (transcript s) = []
                         \<or> transcript s = ''Recording...''
                      then RecordAnswerFirstMsg else CannotSubmitMsg)\<rparr>"
  using assms by (simp add: submitAnswer_def)

lemma toggle_blocked:
  assumes "screenSharingStopped s"
  shows "toggleRecording mic_ok s = s\<lparr>error := CannotRecordMsg\<rparr>"
  using assms by (simp add: toggleRecording_def)

lemma restart_stopped:
  "screenSharingStopped (restartScreenSharing reply s)
     = (if has_id (responseId s)
           \<and> fst (startScreenRecording reply None (s\<lparr>error := NoMessage\<rparr>)) = None
        then False else screenSharingStopped s)"
proof -
  obtain m s1 where r: "startScreenRecording reply None (s\<lparr>error := NoMessage\<rparr>) = (m, s1)"
    by (cases "startScreenRecording reply None (s\<lparr>error := NoMessage\<rparr>)")
  have "screenSharingStopped s1 = screenSharingStopped s"
    using start_screen_recording_frame(2) [of reply None "s\<lparr>error := NoMessage\<rparr>"] r by simp
  then show ?thesis
    by (simp add: restartScreenSharing_def r split: option.splits)
qed

lemma handle_keeps_stopped:
  assumes "screenSharingStopped s"
  shows "screenSharingStopped (handle ev s)
     \<longleftrightarrow> \<not> (\<exists>reply. ev = RestartScreenSharing reply \<and> has_id (responseId s)
              \<and> fst (startScreenRecording reply None (s\<lparr>error := NoMessage\<rparr>)) = None)"
  using assms by (cases ev) (simp_all add: restart_stopped)

text \<open>
  What holds in every state. When the screen-share track ends, a screen_sharing_stopped
  alert is appended to the integrity log and the screenSharingStopped flag is set. While
  the flag is set, submitAnswer and toggleRecording only set an error message: nothing
  else of the state changes, so no backend call is logged and no recording is started.
  The flag stays set through every event except a restartScreenSharing whose
  startScreenRecording returns without an error.
\<close>

lemma stopped_flag_blocks:
  "cheatingAlertsRef (step tenv (TrackEnded rid now) s)
     = cheatingAlertsRef s
       @ [\<lparr>alert_type = ''screen_sharing_stopped'', timestamp = now,
           alert_details = Details ''User stopped screen sharing''\<rparr>]
   \<and> screenSharingStopped (step tenv (TrackEnded rid now) s)
   \<and> (screenSharingStopped s \<longrightarrow>
        step tenv (SubmitAnswer env) s
          = s\<lparr>error := (if \<not> has_id (responseId s) \<or> trim (transcript s) = []
                              \<or> transcript s = ''Recording...''
                           then RecordAnswerFirstMsg else CannotSubmitMsg)\<rparr>
        \<and> step tenv (ToggleRecording mic_ok) s = s\<lparr>error := CannotRecordMsg\<rparr>
        \<and> (screenSharingStopped (step tenv ev s)
             \<longleftrightarrow> \<not> (\<exists>reply. ev = RestartScreenSharing reply \<and> has_id (responseId s)
                      \<and> fst (startScreenRecording reply None (s\<lparr>error := NoMessage\<rparr>))
                          = None)))"
proof -
  have ended: "step tenv (TrackEnded rid now) s = onended rid now s"
    using step_quiet [of "TrackEnded rid now" s tenv] by (simp add: timer_deps_def)
  have submit: "step tenv (SubmitAnswer env) s = submitAnswer env s"
    if "screenSharingStopped s"
    using step_quiet [of "SubmitAnswer env" s tenv]
    by (simp add: timer_deps_def submit_blocked [OF that])
  have toggle: "step tenv (ToggleRecording mic_ok) s = toggleRecording mic_ok s"
    if "screenSharingStopped s"
    using step_quiet [of "ToggleRecording mic_ok" s tenv]
    by (simp add: timer_deps_def toggle_blocked [OF that])
  show ?thesis
    using submit toggle handle_keeps_stopped [of s ev]
    by (simp add: ended submit_blocked toggle_blocked)
qed

text \<open>
  \<^verbatim>\<open>startScreenRecording\<close> returns without an error in two ways: it has started a recorder
  on a stream, or it has found a recorder that is not inactive and returned at once,
  before any request for a stream. \<^verbatim>\<open>restartScreenSharing\<close> clears the flag after either.
  The second is what a restart meets while the stop that \<^verbatim>\<open>onended\<close> began is still in
  its first wait: the recorder records the display track together with the microphone
  track, so the end of the display track leaves it recording until \<^verbatim>\<open>recorder.stop()\<close>.
\<close>

lemma onended_recording:
  assumes "screenRecorderRef s = Some Recording"
  shows "screenRecorderRef (onended rid now s) = Some Recording"
    and "screenStreamRef (onended rid now s) = screenStreamRef s"
    and "flushesPending (onended rid now s) = flushesPending s @ [recorderGen s]"
  using assms
  by (simp_all add: onended_def stopScreenRecording_detached_def recordCheatingAlert_def
      log_call_def Let_def split: option.splits)

lemma restart_while_active:
  assumes "has_id (responseId s)" "recorder_active s"
  shows "restartScreenSharing reply s = s\<lparr>error := NoMessage, screenSharingStopped := False\<rparr>"
  using assms
  by (simp add: restartScreenSharing_def startScreenRecording_def recorder_active_def)

lemma restart_before_stop:
  assumes "has_id (responseId s)" "screenRecorderRef s = Some Recording"
  shows "screenSharingStopped (step tenv (TrackEnded rid now) s)"
    and "\<not> screenSharingStopped
           (step tenv (RestartScreenSharing reply) (step tenv (TrackEnded rid now) s))"
    and "calls (step tenv (RestartScreenSharing reply) (step tenv (TrackEnded rid now) s))
           = calls (step tenv (TrackEnded rid now) s)"
    and "screenStreamRef (step tenv (RestartScreenSharing reply) (step tenv (TrackEnded rid now) s))
           = screenStreamRef s"
proof -
  let ?t = "step tenv (TrackEnded rid now) s"
  have ended: "?t = onended rid now s"
    using step_quiet [of "TrackEnded rid now" s tenv] by (simp add: timer_deps_def)
  have id: "has_id (responseId ?t)" using assms(1) by (simp add: ended)
  have act: "recorder_active ?t"
    using onended_recording(1) [OF assms(2), of rid now] by (simp add: ended recorder_active_def)
  have restart: "handle (RestartScreenSharing reply) ?t
      = ?t\<lparr>error := NoMessage, screenSharingStopped := False\<rparr>"
    using restart_while_active [OF id act] by simp
  have quiet: "step tenv (RestartScreenSharing reply) ?t
      = ?t\<lparr>error := NoMessage, screenSharingStopped := False\<rparr>"
    using step_quiet [of "RestartScreenSharing reply" ?t tenv]
    unfolding restart by (simp add: timer_deps_def)
  show "screenSharingStopped ?t" by (simp add: ended)
  show "\<not> screenSharingStopped (step tenv (RestartScreenSharing reply) ?t)"
    unfolding quiet by simp
  show "calls (step tenv (RestartScreenSharing reply) ?t) = calls ?t"
    unfolding quiet by simp
  show "screenStreamRef (step tenv (RestartScreenSharing reply) ?t) = screenStreamRef s"
    unfolding quiet using onended_recording(2) [OF assms(2), of rid now] by (simp add: ended)
qed

subsection \<open>Chunk indices\<close>





lemma step_index:
  "screenChunkIndexRef (step tenv ev s) = screenChunkIndexRef (handle ev s)"
  "sentUnder (step tenv ev s) = sentUnder (handle ev s)"
  by (simp_all add: step_def)





subsection \<open>Failed uploads\<close>

lemma await_save_timeout:
  "\<forall>(t, ev) \<in> set evs. ackTimeout \<le> t \<or> ev = VideoChunkSaved False \<Longrightarrow>
   await_save armed evs = Inl AckTimeout"
  by (induction armed evs rule: await_save.induct) (auto split: socket_event.splits)

lemma await_save_error:
  "t < ackTimeout \<Longrightarrow> \<exists>msg. await_save armed ((t, SocketError m) # rest) = Inl (SaveFailed msg)"
  by simp

lemma wait_disconnected:
  assumes "\<forall>j \<le> 50. \<not> conn (100 * j)"
  shows "k \<le> 50 \<Longrightarrow> wait_for_socket conn (100 * k) = 5000"
proof (induction "50 - k" arbitrary: k)
  case 0
  then have "k = 50" by simp
  then show ?case by (subst wait_for_socket.simps) (simp add: maxWait_def)
next
  case (Suc n)
  then have k: "k < 50" by simp
  then have "\<not> conn (100 * k)" using assms by simp
  moreover have "100 * k < maxWait" using k by (simp add: maxWait_def)
  ultimately have unfold: "wait_for_socket conn (100 * k) = wait_for_socket conn (100 * k + 100)"
    by (subst wait_for_socket.simps) simp
  have "wait_for_socket conn (100 * Suc k) = 5000"
    using Suc k by (intro Suc.hyps(1)) simp_all
  then show ?case using unfold by (simp add: add.commute)
qed

lemma wait_bounded:
  "t \<le> maxWait \<Longrightarrow> 100 dvd t \<Longrightarrow> wait_for_socket conn t \<le> maxWait"
proof (induction conn t rule: wait_for_socket.induct)
  case (1 conn t)
  show ?case
  proof (cases "\<not> conn t \<and> t < maxWait")
    case True
    from 1(3) obtain j where j: "t = 100 * j" by (auto simp: dvd_def)
    with True have "j < 50" by (simp add: maxWait_def)
    then have "t + 100 \<le> maxWait" "100 dvd (t + 100)" by (simp_all add: j maxWait_def)
    with 1(1) True have "wait_for_socket conn (t + 100) \<le> maxWait" by simp
    with True show ?thesis by (subst wait_for_socket.simps) simp
  next
    case False
    then have "wait_for_socket conn t = t" by (subst wait_for_socket.simps) auto
    with 1(2) show ?thesis by simp
  qed
qed

lemma upload_times_out:
  assumes "read_chunk env = Inr c" "connected_at env 0"
    and "\<forall>(t, ev) \<in> set (ack_events env). ackTimeout \<le> t \<or> ev = VideoChunkSaved False"
  shows "snd (send_chunk env rid) = Inl AckTimeout"
  using assms by (simp add: send_chunk_def await_save_timeout)

lemma upload_rejected:
  assumes "read_chunk env = Inr c" "connected_at env 0"
    and "ack_events env = (t, SocketError m) # rest" "t < ackTimeout"
  shows "\<exists>msg. snd (send_chunk env rid) = Inl (SaveFailed msg)"
  using assms by (simp add: send_chunk_def)

lemma upload_without_socket:
  assumes "read_chunk env = Inr c" "\<forall>j \<le> 50. \<not> connected_at env (100 * j)"
  shows "snd (send_chunk env rid) = Inl SocketNotConnected"
proof -
  have "wait_for_socket (connected_at env) (100 * 0) = 5000"
    using assms(2) by (intro wait_disconnected) simp_all
  moreover have "\<not> connected_at env 0" "\<not> connected_at env 5000"
    using assms(2) [rule_format, of 0] assms(2) [rule_format, of 50] by simp_all
  ultimately show ?thesis using assms(1) by (simp add: send_chunk_def)
qed

lemma ondataavailable_failure:
  assumes "0 < blob_size b" and "snd (send_chunk env rid) = Inl e"
  shows "ondataavailable env rid (Some b) s
     = s\<lparr>screenChunksRef := screenChunksRef s @ [b],
         sentUnder := sentUnder s @ [screenChunkIndexRef s],
         calls := calls s @ fst (send_chunk env rid),
         caught := caught s @ [(screenChunkIndexRef s, e)]\<rparr>"
proof -
  obtain emitted where "send_chunk env rid = (emitted, Inl e)"
    using assms(2) by (cases "send_chunk env rid") simp
  then show ?thesis
    using assms(1) by (simp add: ondataavailable_def chunk_begin_def chunk_settle_def)
qed

lemma ondataavailable_chunks:
  assumes "0 < blob_size b"
  shows "screenChunksRef (ondataavailable env rid (Some b) s) = screenChunksRef s @ [b]"
  using assms
  by (simp add: ondataavailable_def chunk_begin_def chunk_settle_def Let_def
      split: prod.splits sum.splits)

text \<open>
  C2. When the upload of a screen chunk fails, for whatever reason (among them: no
  acknowledgement within 10 seconds, an error response, the socket still disconnected
  after the 5 seconds of waiting), the handler returns with the error logged and nothing
  else changed but the chunk list and the logs: the recorder is as it was, the session
  is not ended, the chunk index is not advanced, and the next chunk is handled as usual.
\<close>

theorem chunk_upload_failure_is_contained:
  assumes "0 < blob_size b" and "snd (send_chunk env rid) = Inl e"
  shows "ondataavailable env rid (Some b) s
      = s\<lparr>screenChunksRef := screenChunksRef s @ [b],
          sentUnder := sentUnder s @ [screenChunkIndexRef s],
          calls := calls s @ fst (send_chunk env rid),
          caught := caught s @ [(screenChunkIndexRef s, e)]\<rparr>
    \<and> screenRecorderRef (ondataavailable env rid (Some b) s) = screenRecorderRef s
    \<and> interviewComplete (ondataavailable env rid (Some b) s) = interviewComplete s
    \<and> (\<forall>env' b'. 0 < blob_size b' \<longrightarrow>
          screenChunksRef (ondataavailable env' rid (Some b') (ondataavailable env rid (Some b) s))
            = screenChunksRef s @ [b, b'])"
proof -
  note eq = ondataavailable_failure [OF assms, of s]
  have "screenChunksRef (ondataavailable env' rid (Some b') (ondataavailable env rid (Some b) s))
      = screenChunksRef s @ [b, b']" if "0 < blob_size b'" for env' b'
    using ondataavailable_chunks [OF that, of env' rid "ondataavailable env rid (Some b) s"]
      ondataavailable_chunks [OF assms(1), of env rid s]
    by simp
  then show ?thesis using eq by simp
qed

subsection \<open>The sample session\<close>

lemma sample_start_facts:
  "start_reply (sample_start d) = StartOk (Some ''resp-1'') (Some d)"
  "first_question (sample_start d) \<noteq> QuestionComplete"
  by (simp_all add: sample_start_def)

lemma sample_read: "read_chunk (sample_upload replies) = Inr ''AAAAIGZ0eXBpc29t''"
  by (simp add: read_chunk_def sample_upload_def onload_def strip_prefix_def trim_def
      is_space_def is_base64_char_def pad_base64_def Let_def)

lemma sample_timeout: "snd (send_chunk (sample_upload []) rid) = Inl AckTimeout"
  by (rule upload_times_out [OF sample_read]) (simp_all add: sample_upload_def)


lemma sample_recording:
  "screenChunkIndexRef (step tenv (StartSession (sample_start d)) (init_session now)) = 0"
  "sentUnder (step tenv (StartSession (sample_start d)) (init_session now)) = []"
  "screenRecorderRef (handle (StartSession (sample_start d)) (init_session now)) = Some Recording"
proof -
  let ?a = "(init_session now)\<lparr>loading := True, sessionInitializedRef := True,
      responseId := Some ''resp-1''\<rparr>"
  let ?c = "(if 0 < d then ?a\<lparr>timeRemaining := Some (d * 60)\<rparr> else ?a)\<lparr>socketRef := True\<rparr>"
  let ?q = "fetchCurrentQuestion (first_question (sample_start d)) ''resp-1'' ?c"
  have q: "screenRecorderRef ?q = None" "screenStreamRef ?q = None"
    by (simp_all add: fetchCurrentQuestion_def sample_start_def log_call_def init_session_def)
  have rec: "startScreenRecording (display_reply (sample_start d))
        (existingScreenStream (sample_start d)) ?q
      = (None, ?q\<lparr>screenStreamRef := Some [sample_track], screenRecorderRef := Some Recording,
           screenChunksRef := [], sentUnder := [], screenChunkIndexRef := 0,
           recorderGen := recorderGen ?q + 1\<rparr>)"
    using q
    by (simp add: startScreenRecording_def recorder_active_def begin_recording_def
        sample_start_def sample_track_def)
  have "start_screen (sample_start d) ?q
      = ?q\<lparr>screenStreamRef := Some [sample_track], screenRecorderRef := Some Recording,
           screenChunksRef := [], sentUnder := [], screenChunkIndexRef := 0,
           recorderGen := recorderGen ?q + 1\<rparr>"
    using q by (simp add: start_screen_def recorder_active_def rec) (simp add: sample_start_def)
  moreover have "start_response (sample_start d) ((init_session now)\<lparr>loading := True\<rparr>)
      = start_screen (sample_start d) ?q"
    by (simp add: start_response_def Let_def) (simp add: sample_start_def)
  ultimately have h: "handle (StartSession (sample_start d)) (init_session now)
      = (?q\<lparr>screenStreamRef := Some [sample_track], screenRecorderRef := Some Recording,
           screenChunksRef := [], sentUnder := [], screenChunkIndexRef := 0,
           recorderGen := recorderGen ?q + 1\<rparr>)\<lparr>loading := False\<rparr>"
    by (simp add: startSession_def) (simp add: init_session_def)
  show "screenChunkIndexRef (step tenv (StartSession (sample_start d)) (init_session now)) = 0"
    and "sentUnder (step tenv (StartSession (sample_start d)) (init_session now)) = []"
    and "screenRecorderRef (handle (StartSession (sample_start d)) (init_session now))
          = Some Recording"
    unfolding step_index h by simp_all
qed

lemma end_completes:
  assumes "has_id (responseId s)" "\<not> interviewComplete s" "end_reply env = EndOk a b"
  shows "interviewComplete (endInterviewManually env s)"
  using assms
  by (simp add: endInterviewManually_def end_response_def has_id_def Let_def
      split: option.splits detail_reply.splits)

subsection \<open>The properties on the sample session\<close>

lemma sample_monitoring:
  "monitoring (step tenv (StartSession (sample_start 10)) (init_session 0))"
  "end_calls (step tenv (StartSession (sample_start 10)) (init_session 0)) = 0"
  using step_started [OF sample_start_facts(1) [of 10] _ sample_start_facts(2) [of 10],
      where tenv = tenv and now = 0]
  by (simp_all add: monitoring_def has_id_def)



theorem chunk_upload_failure_is_contained_witness:
  "0 < blob_size (sample_chunk 4096)
   \<and> snd (send_chunk (sample_upload []) ''resp-1'') = Inl AckTimeout
   \<and> screenRecorderRef (ondataavailable (sample_upload []) ''resp-1'' (Some (sample_chunk 4096))
        (handle (StartSession (sample_start 10)) (init_session 0))) = Some Recording
   \<and> \<not> interviewComplete (ondataavailable (sample_upload []) ''resp-1'' (Some (sample_chunk 4096))
        (step sample_end (StartSession (sample_start 10)) (init_session 0)))
   \<and> screenChunksRef
        (ondataavailable (sample_upload [(120, VideoChunkSaved True)]) ''resp-1''
          (Some (sample_chunk 8192))
          (ondataavailable (sample_upload []) ''resp-1'' (Some (sample_chunk 4096))
            (step sample_end (StartSession (sample_start 10)) (init_session 0))))
      = screenChunksRef (step sample_end (StartSession (sample_start 10)) (init_session 0))
        @ [sample_chunk 4096, sample_chunk 8192]"
proof -
  have size: "0 < blob_size (sample_chunk 4096)" "0 < blob_size (sample_chunk 8192)"
    by (simp_all add: sample_chunk_def)
  note fail = sample_timeout [of "''resp-1''"]
  note c = chunk_upload_failure_is_contained [OF size(1) fail]
  have live: "\<not> interviewComplete (step sample_end (StartSession (sample_start 10)) (init_session 0))"
    using sample_monitoring(1) [of sample_end] by (simp add: monitoring_def)
  have next_chunk: "screenChunksRef
        (ondataavailable (sample_upload [(120, VideoChunkSaved True)]) ''resp-1''
          (Some (sample_chunk 8192))
          (ondataavailable (sample_upload []) ''resp-1'' (Some (sample_chunk 4096))
            (step sample_end (StartSession (sample_start 10)) (init_session 0))))
      = screenChunksRef (step sample_end (StartSession (sample_start 10)) (init_session 0))
        @ [sample_chunk 4096, sample_chunk 8192]"
    using c [of "step sample_end (StartSession (sample_start 10)) (init_session 0)"] size(2)
    by blast
  have "screenRecorderRef (ondataavailable (sample_upload []) ''resp-1'' (Some (sample_chunk 4096))
        (handle (StartSession (sample_start 10)) (init_session 0))) = Some Recording"
    using c [of "handle (StartSession (sample_start 10)) (init_session 0)"]
      sample_recording(3) [of 10 0]
    by simp
  moreover have "\<not> interviewComplete (ondataavailable (sample_upload []) ''resp-1''
        (Some (sample_chunk 4096))
        (step sample_end (StartSession (sample_start 10)) (init_session 0)))"
    using c [of "step sample_end (StartSession (sample_start 10)) (init_session 0)"] live
    by simp
  ultimately show ?thesis
    using size(1) fail next_chunk by simp
qed

text \<open>
  A restart after the suspended stop has finished does ask for a stream, and a refusal
  leaves the flag set.
\<close>

lemma restart_after_stop_is_refused:
  "screenSharingStopped
     (run sample_end
        [StartSession (sample_start 10), TrackEnded None 7, StopFlushed, StopReleased,
         RestartScreenSharing (DisplayThrows ''NotAllowedError'')]
        (init_session 0))
   \<and> calls
     (run sample_end
        [StartSession (sample_start 10), TrackEnded None 7, StopFlushed, StopReleased,
         RestartScreenSharing (DisplayThrows ''NotAllowedError'')]
        (init_session 0))
     = [GetCurrentQuestion ''resp-1'', GetDisplayMedia]"
  by code_simp

text \<open>
  C3. After the screen-share track has ended, submitAnswer and toggleRecording are to be
  refused until a restart of screen sharing succeeds. The code clears the flag also on a
  restart that acquires nothing. On the sample session: the track ends, which sets the
  flag and leaves the recorder recording; the candidate restarts at once, which clears
  the flag without a call of \<^verbatim>\<open>getDisplayMedia\<close> (the reply, never asked for, would have
  been a refusal); the suspended stop then stops the recorder and releases the stream,
  the flag staying clear; and from there an answer is submitted to the backend and a
  recording of an answer is started.
\<close>

theorem restart_before_recorder_stops_unblocks:
  "screenSharingStopped
     (run sample_end [StartSession (sample_start 10), TrackEnded None 7] (init_session 0))
   \<and> screenRecorderRef
       (run sample_end [StartSession (sample_start 10), TrackEnded None 7] (init_session 0))
     = Some Recording
   \<and> calls
       (run sample_end [StartSession (sample_start 10), TrackEnded None 7] (init_session 0))
     = [GetCurrentQuestion ''resp-1'']
   \<and> \<not> screenSharingStopped
       (run sample_end
          [StartSession (sample_start 10), TrackEnded None 7,
           RestartScreenSharing (DisplayThrows ''NotAllowedError'')]
          (init_session 0))
   \<and> calls
       (run sample_end
          [StartSession (sample_start 10), TrackEnded None 7,
           RestartScreenSharing (DisplayThrows ''NotAllowedError'')]
          (init_session 0))
     = [GetCurrentQuestion ''resp-1'']
   \<and> screenRecorderRef
       (run sample_end
          [StartSession (sample_start 10), TrackEnded None 7,
           RestartScreenSharing (DisplayThrows ''NotAllowedError''), StopFlushed, StopReleased]
          (init_session 0))
     = Some Inactive
   \<and> screenStreamRef
       (run sample_end
          [StartSession (sample_start 10), TrackEnded None 7,
           RestartScreenSharing (DisplayThrows ''NotAllowedError''), StopFlushed, StopReleased]
          (init_session 0))
     = None
   \<and> \<not> screenSharingStopped
       (run sample_end
          [StartSession (sample_start 10), TrackEnded None 7,
           RestartScreenSharing (DisplayThrows ''NotAllowedError''), StopFlushed, StopReleased]
          (init_session 0))
   \<and> calls
       (run sample_end
          [StartSession (sample_start 10), TrackEnded None 7,
           RestartScreenSharing (DisplayThrows ''NotAllowedError''), StopFlushed, StopReleased,
           TranscriptResult ''I led the migration.'',
           SubmitAnswer \<lparr>submit_reply = SubmitNotOk, next_question = QuestionNotOk\<rparr>]
          (init_session 0))
     = [GetCurrentQuestion ''resp-1'',
        PostSubmitAnswer ''resp-1'' ''Tell us about your last project.''
          ''I led the migration.'']
   \<and> isRecording
       (run sample_end
          [StartSession (sample_start 10), TrackEnded None 7,
           RestartScreenSharing (DisplayThrows ''NotAllowedError''), StopFlushed, StopReleased,
           SocketConnect, ToggleRecording True]
          (init_session 0))"
  by code_simp

theorem tab_switch_threshold_witness:
  "monitoring ((step sample_end (StartSession (sample_start 10)) (init_session 0))
      \<lparr>tabSwitchCountRef := 2\<rparr>)
   \<and> tabSwitchCountRef (step sample_end (VisibilityChange sample_end True 5)
        ((step sample_end (StartSession (sample_start 10)) (init_session 0))
           \<lparr>tabSwitchCountRef := 2\<rparr>)) = 3
   \<and> end_calls (step sample_end (VisibilityChange sample_end True 5)
        ((step sample_end (StartSession (sample_start 10)) (init_session 0))
           \<lparr>tabSwitchCountRef := 2\<rparr>)) = 1
   \<and> monitoring ((step sample_end (StartSession (sample_start 10)) (init_session 0))
      \<lparr>tabSwitchCountRef := 1\<rparr>)
   \<and> tabSwitchCountRef (step sample_end (VisibilityChange sample_end True 5)
        ((step sample_end (StartSession (sample_start 10)) (init_session 0))
           \<lparr>tabSwitchCountRef := 1\<rparr>)) = 2
   \<and> end_calls (step sample_end (VisibilityChange sample_end True 5)
        ((step sample_end (StartSession (sample_start 10)) (init_session 0))
           \<lparr>tabSwitchCountRef := 1\<rparr>)) = 0"
proof -
  let ?s = "step sample_end (StartSession (sample_start 10)) (init_session 0)"
  have m: "monitoring (?s\<lparr>tabSwitchCountRef := n\<rparr>)" for n
    using sample_monitoring(1) [of sample_end] by (simp add: monitoring_def)
  have e: "end_calls (?s\<lparr>tabSwitchCountRef := n\<rparr>) = 0" for n
    using sample_monitoring(2) [of sample_end] by simp
  show ?thesis
    using tab_switch_threshold [OF m [of 2], of sample_end sample_end 5]
      tab_switch_threshold [OF m [of 1], of sample_end sample_end 5] m e
    by simp
qed

theorem end_when_complete_is_noop_witness:
  "interviewComplete (endInterviewManually sample_end
      (step sample_end (StartSession (sample_start 10)) (init_session 0)))
   \<and> endInterviewManually sample_end
        (endInterviewManually sample_end
          (step sample_end (StartSession (sample_start 10)) (init_session 0)))
      = endInterviewManually sample_end
          (step sample_end (StartSession (sample_start 10)) (init_session 0))
   \<and> end_calls (endInterviewManually sample_end
        (endInterviewManually sample_end
          (step sample_end (StartSession (sample_start 10)) (init_session 0)))) = 1"
proof -
  let ?s = "step sample_end (StartSession (sample_start 10)) (init_session 0)"
  have m: "has_id (responseId ?s)" "\<not> interviewComplete ?s"
    using sample_monitoring(1) [of sample_end] by (simp_all add: monitoring_def)
  have c: "interviewComplete (endInterviewManually sample_end ?s)"
    using m by (rule end_completes) (simp add: sample_end_def)
  have one: "end_calls (endInterviewManually sample_end ?s) = 1"
    using m sample_monitoring(2) [of sample_end] by (simp add: end_calls_end)
  from end_when_complete_is_noop [of "endInterviewManually sample_end ?s" sample_end sample_end]
  show ?thesis using c one by simp
qed

theorem ten_minute_countdown_witness:
  "start_reply (sample_start 10) = StartOk (Some ''resp-1'') (Some 10)
   \<and> ''resp-1'' \<noteq> []
   \<and> first_question (sample_start 10) \<noteq> QuestionComplete
   \<and> timeRemaining (step sample_end (StartSession (sample_start 10)) (init_session 0)) = Some 600
   \<and> timeRemaining (run sample_end [Tick]
        (step sample_end (StartSession (sample_start 10)) (init_session 0))) = Some 599
   \<and> timeRemaining (run sample_end (replicate 600 Tick)
        (step sample_end (StartSession (sample_start 10)) (init_session 0))) = Some 0
   \<and> end_calls (run sample_end (replicate 599 Tick)
        (step sample_end (StartSession (sample_start 10)) (init_session 0))) = 0
   \<and> end_calls (run sample_end (replicate 600 Tick)
        (step sample_end (StartSession (sample_start 10)) (init_session 0))) = 1
   \<and> end_calls (run sample_end (replicate 4000 Tick)
        (step sample_end (StartSession (sample_start 10)) (init_session 0))) = 1"
proof -
  have id: "''resp-1'' \<noteq> []" by simp
  note t = ten_minute_countdown [OF sample_start_facts(1) [of 10] id
      sample_start_facts(2) [of 10], where tenv = sample_end and now = 0]
  from t have "timeRemaining (run sample_end (replicate 600 Tick)
        (step sample_end (StartSession (sample_start 10)) (init_session 0))) = Some (600 - int 600)"
    by blast
  moreover from t have "end_calls (run sample_end (replicate 599 Tick)
        (step sample_end (StartSession (sample_start 10)) (init_session 0))) = 0"
    by simp
  moreover from t have "end_calls (run sample_end (replicate 600 Tick)
        (step sample_end (StartSession (sample_start 10)) (init_session 0))) = 1"
    "end_calls (run sample_end (replicate 4000 Tick)
        (step sample_end (StartSession (sample_start 10)) (init_session 0))) = 1"
    by simp_all
  ultimately show ?thesis using t sample_start_facts [of 10] by simp
qed

text \<open>
  C7, as the code has it. With a duration of 0 the timer never starts counting and
  ends nothing: the remaining time stays undefined, no interval is armed, and however
  many seconds pass, no end-of-interview call is made and the session is not complete.
\<close>

theorem zero_duration_disables_timer:
  assumes "start_reply env = StartOk (Some rid) (Some 0)" and "rid \<noteq> []"
    and "first_question env \<noteq> QuestionComplete"
  shows "timeRemaining (step tenv (StartSession env) (init_session now)) = None
    \<and> timerIntervalRef (step tenv (StartSession env) (init_session now)) = None
    \<and> timeRemaining (run tenv (replicate k Tick) (step tenv (StartSession env) (init_session now)))
        = None
    \<and> end_calls (run tenv (replicate k Tick) (step tenv (StartSession env) (init_session now)))
        = 0
    \<and> \<not> interviewComplete
          (run tenv (replicate k Tick) (step tenv (StartSession env) (init_session now)))"
  using untimed_session(1,2,3) [OF assms, where tenv = tenv and k = k and now = now]
    untimed_session(1) [OF assms, where tenv = tenv and k = 0 and now = now]
    untimed_session(4) [OF assms, where tenv = tenv and now = now]
  by simp

theorem zero_duration_disables_timer_witness:
  "start_reply (sample_start 0) = StartOk (Some ''resp-1'') (Some 0)
   \<and> ''resp-1'' \<noteq> []
   \<and> first_question (sample_start 0) \<noteq> QuestionComplete
   \<and> timeRemaining (step sample_end (StartSession (sample_start 0)) (init_session 0)) = None
   \<and> end_calls (run sample_end (replicate 600 Tick)
        (step sample_end (StartSession (sample_start 0)) (init_session 0))) = 0"
proof -
  have id: "''resp-1'' \<noteq> []" by simp
  from zero_duration_disables_timer [OF sample_start_facts(1) [of 0] id
      sample_start_facts(2) [of 0], where tenv = sample_end and now = 0 and k = 600]
  show ?thesis using sample_start_facts [of 0] by simp
qed

text \<open>
  Against C7 as stated: after a start with a duration of 0 no end-of-interview call has
  been made, and none is made while time passes; the session is not complete.
\<close>

theorem zero_duration_does_not_end_interview:
  "timeRemaining (step sample_end (StartSession (sample_start 0)) (init_session 0)) = None
   \<and> end_calls (step sample_end (StartSession (sample_start 0)) (init_session 0)) = 0
   \<and> end_calls (run sample_end (replicate 3 Tick)
        (step sample_end (StartSession (sample_start 0)) (init_session 0))) = 0
   \<and> \<not> interviewComplete (run sample_end (replicate 3 Tick)
        (step sample_end (StartSession (sample_start 0)) (init_session 0)))"
proof -
  have id: "''resp-1'' \<noteq> []" by simp
  note u = untimed_session(1,2,3) [OF sample_start_facts(1) [of 0] id
      sample_start_facts(2) [of 0]]
  show ?thesis
    using u [where tenv = sample_end and k = 3 and now = 0]
      u(1,2) [where tenv = sample_end and k = 0 and now = 0]
    by simp
qed

theorem time_remaining_never_negative_witness:
  "timeRemaining (run sample_end [StartSession (sample_start 10), Tick] (init_session 0))
     = Some 599
   \<and> (0 :: int) \<le> 599
   \<and> timeRemaining (init_session 0) = None
   \<and> timeRemaining (interval_callback (init_session 0)) = Some 0
   \<and> timeRemaining (interval_callback ((init_session 0)\<lparr>timeRemaining := Some 1\<rparr>)) = Some 0
   \<and> timeRemaining (interval_callback ((init_session 0)\<lparr>timeRemaining := Some 7\<rparr>)) = Some 6"
proof -
  let ?s = "step sample_end (StartSession (sample_start 10)) (init_session 0)"
  have id: "''resp-1'' \<noteq> []" by simp
  note st = step_started [OF sample_start_facts(1) [of 10] id sample_start_facts(2) [of 10],
      where tenv = sample_end and now = 0]
  have "run sample_end (replicate 1 Tick) ?s = ?s\<lparr>timeRemaining := Some (600 - int 1)\<rparr>"
    using st by (intro run_ticks_before) simp_all
  then have first: "timeRemaining (run sample_end [StartSession (sample_start 10), Tick]
      (init_session 0)) = Some 599"
    by simp
  have none: "timeRemaining (init_session 0) = None" by (simp add: init_session_def)
  show ?thesis
    using first none
      time_remaining_never_negative [of sample_end "[]" 0 "init_session 0"]
      time_remaining_never_negative [of sample_end "[]" 0 "(init_session 0)\<lparr>timeRemaining := Some 1\<rparr>"]
      time_remaining_never_negative [of sample_end "[]" 0 "(init_session 0)\<lparr>timeRemaining := Some 7\<rparr>"]
    by simp
qed

end
